theory Spec2Isabelle
  imports Main
begin

section \<open>Values, documents and errors\<close>

text \<open>
  The handlers of \<^verbatim>\<open>main.py\<close> move JSON-like Python values between request bodies
  (\<^verbatim>\<open>Dict[str, Any]\<close>) and the document store. \<open>JTime\<close> is a \<^verbatim>\<open>datetime\<close>
  (a clock reading), \<open>JOid\<close> an \<^verbatim>\<open>ObjectId\<close>, written as the lower-case hexadecimal
  digits of its bytes (24 digits for an identifier the driver generates). JSON numbers are integers here; numbers with a fraction are not part of the model.
  A document and a payload are Python dicts: maps from field names to values.
\<close>

datatype jval =
    JNull
  | JBool bool
  | JInt int
  | JStr string
  | JList "jval list"
  | JObj "(string \<times> jval) list"
  | JTime nat
  | JOid string

type_synonym document = "string \<rightharpoonup> jval"
type_synonym collection = "document list"
type_synonym database = "string \<Rightarrow> collection"
type_synonym query = "(string \<times> jval) list"

text \<open>
  Every \<^verbatim>\<open>raise\<close> of the source is a value: \<open>HTTPException status detail\<close> for the
  handlers' own errors, \<open>ValidationError fields\<close> for a pydantic model that rejects its
  input (with the names of the offending fields), \<open>WriteError\<close> for a write the store
  refuses, \<open>KeyError\<close> for a missing dict key.
\<close>

datatype error =
    HTTPException nat string
  | ValidationError "string list"
  | WriteError string
  | KeyError string

text \<open>
  What a request reads from outside the program: the readings of
  \<^verbatim>\<open>datetime.now(timezone.utc)\<close> in the order the handler takes them, the identifiers
  the driver generates for inserted documents, and the hexadecimal form of
  \<^verbatim>\<open>os.urandom(24)\<close>.
\<close>

record env =
  now :: "nat \<Rightarrow> nat"
  object_id :: "nat \<Rightarrow> string"
  urandom_hex :: string

text \<open>
  Library behaviour the handlers call but the source does not contain: Python's
  \<^verbatim>\<open>str()\<close> on a value that is neither a string nor an ObjectId, pydantic's validator
  of the type \<^verbatim>\<open>int\<close>, and the validator of \<^verbatim>\<open>EmailStr\<close> (which returns the normalised
  address). They are parameters of the model.
\<close>

record pylib =
  py_str :: "jval \<Rightarrow> string"
  int_validator :: "jval \<Rightarrow> int option"
  email_validator :: "string \<Rightarrow> string option"

section \<open>Strings\<close>

text \<open>\<^verbatim>\<open>str.lower()\<close> on the ASCII letters; every other character is left as it is.\<close>

definition lower_char :: "char \<Rightarrow> char" where
  "lower_char c =
     (case map_of (zip ''ABCDEFGHIJKLMNOPQRSTUVWXYZ'' ''abcdefghijklmnopqrstuvwxyz'') c of
        None \<Rightarrow> c
      | Some l \<Rightarrow> l)"

definition lower :: "string \<Rightarrow> string" where
  "lower s = map lower_char s"

definition is_hex :: "char \<Rightarrow> bool" where
  "is_hex c = (c \<in> set ''0123456789abcdefABCDEF'')"

text \<open>The ASCII whitespace that \<^verbatim>\<open>bytes.fromhex\<close> skips: space, tab, line feed, vertical
  tab, form feed and carriage return.\<close>

definition is_space :: "char \<Rightarrow> bool" where
  "is_space c = (c \<in> set [CHR '' '', CHR 0x09, CHR 0x0A, CHR 0x0B, CHR 0x0C, CHR 0x0D])"

text \<open>\<^verbatim>\<open>bytes.fromhex(s)\<close>: whitespace is skipped in front of a byte, a byte is two
  hexadecimal digits next to each other, anything else is a \<^verbatim>\<open>ValueError\<close> (here
  \<open>None\<close>). The bytes are written as their lower-case hexadecimal digits, which is also
  what \<^verbatim>\<open>str()\<close> of an ObjectId holding them prints.\<close>

fun fromhex :: "string \<Rightarrow> string option" where
  "fromhex [] = Some []"
| "fromhex [c] = (if is_space c then Some [] else None)"
| "fromhex (c # d # ds) =
     (if is_space c then fromhex (d # ds)
      else if is_hex c \<and> is_hex d
        then map_option (\<lambda>r. lower_char c # lower_char d # r) (fromhex ds)
        else None)"

section \<open>The document store\<close>

text \<open>
  Modelled from the spec: the module \<^verbatim>\<open>database\<close> and the MongoDB server behind its
  handle \<^verbatim>\<open>db\<close> are not part of the source. The spec lists the store's operations
  (insert, find by filter with sort and limit, update by filter with optional upsert,
  delete by filter, each on one collection); the definitions below give them the meaning
  the handlers rely on. A collection is the list of its documents in insertion order; a name
  nothing was stored under is an empty collection. A filter holds of a document when each
  field it names is present with exactly that value. Field names are plain top-level names.
\<close>

definition matches :: "query \<Rightarrow> document \<Rightarrow> bool" where
  "matches flt d = list_all (\<lambda>(k, v). d k = Some v) flt"

definition find_one :: "collection \<Rightarrow> query \<Rightarrow> document option" where
  "find_one coll flt = find (matches flt) coll"

fun update_first :: "('a \<Rightarrow> bool) \<Rightarrow> ('a \<Rightarrow> 'a) \<Rightarrow> 'a list \<Rightarrow> 'a list" where
  "update_first P f [] = []"
| "update_first P f (x # xs) = (if P x then f x # xs else x # update_first P f xs)"

fun remove_first :: "('a \<Rightarrow> bool) \<Rightarrow> 'a list \<Rightarrow> 'a list" where
  "remove_first P [] = []"
| "remove_first P (x # xs) = (if P x then xs else x # remove_first P xs)"

text \<open>The identifier of a stored document cannot be changed: a \<^verbatim>\<open>$set\<close> that names
  \<^verbatim>\<open>_id\<close> with another value is refused.\<close>

definition changes_id :: "document \<Rightarrow> document \<Rightarrow> bool" where
  "changes_id upd d = (case upd ''_id'' of None \<Rightarrow> False | Some v \<Rightarrow> d ''_id'' \<noteq> Some v)"

text \<open>Identifiers are unique within a collection: a second document with an identifier in
  use is refused.\<close>

definition insert_doc :: "collection \<Rightarrow> document \<Rightarrow> error + collection" where
  "insert_doc coll d =
     (if list_ex (\<lambda>d'. d' ''_id'' = d ''_id'') coll
      then Inl (WriteError ''duplicate key'')
      else Inr (coll @ [d]))"

text \<open>\<^verbatim>\<open>insert_one(doc)\<close>: a document without \<^verbatim>\<open>_id\<close> gets the generated identifier. The
  result is the identifier stored and the new collection.\<close>

definition insert_one :: "collection \<Rightarrow> document \<Rightarrow> string \<Rightarrow> error + (jval \<times> collection)" where
  "insert_one coll d new_id =
     (let i = (case d ''_id'' of None \<Rightarrow> JOid new_id | Some v \<Rightarrow> v)
      in case insert_doc coll (d(''_id'' \<mapsto> i)) of
           Inl e \<Rightarrow> Inl e
         | Inr coll' \<Rightarrow> Inr (i, coll'))"

text \<open>\<^verbatim>\<open>update_one(filter, {"$set": upd})\<close>: the first document the filter holds of gets the
  fields of \<open>upd\<close>, field by field; the result carries \<^verbatim>\<open>matched_count\<close>.\<close>

definition update_one :: "collection \<Rightarrow> query \<Rightarrow> document \<Rightarrow> error + (nat \<times> collection)" where
  "update_one coll flt upd =
     (case find_one coll flt of
        None \<Rightarrow> Inr (0, coll)
      | Some d \<Rightarrow>
          if changes_id upd d then Inl (WriteError ''immutable field _id'')
          else Inr (1, update_first (matches flt) (\<lambda>d. d ++ upd) coll))"

text \<open>\<^verbatim>\<open>update_one(filter, {"$set": upd, "$setOnInsert": on_insert}, upsert=True)\<close>: one field
  named by both operators is a conflict, refused whatever the collection holds. With a
  match the update is as above and \<open>on_insert\<close> is not used; without one a document is
  inserted, made of the filter's fields, \<open>upd\<close> and \<open>on_insert\<close>.\<close>

definition update_one_upsert ::
  "collection \<Rightarrow> query \<Rightarrow> document \<Rightarrow> query \<Rightarrow> string \<Rightarrow> error + collection" where
  "update_one_upsert coll flt upd on_insert new_id =
     (if list_ex (\<lambda>(k, v). upd k \<noteq> None) on_insert then Inl (WriteError ''conflicting update operators'')
      else case find_one coll flt of
          Some d \<Rightarrow>
            if changes_id upd d then Inl (WriteError ''immutable field _id'')
            else Inr (update_first (matches flt) (\<lambda>d. d ++ upd) coll)
        | None \<Rightarrow>
            (case insert_one coll (map_of flt ++ upd ++ map_of on_insert) new_id of
               Inl e \<Rightarrow> Inl e
             | Inr (i, coll') \<Rightarrow> Inr coll'))"

text \<open>\<^verbatim>\<open>delete_one(filter)\<close>: the first matching document goes; the result carries
  \<^verbatim>\<open>deleted_count\<close>.\<close>

definition delete_one :: "collection \<Rightarrow> query \<Rightarrow> nat \<times> collection" where
  "delete_one coll flt =
     (case find_one coll flt of
        None \<Rightarrow> (0, coll)
      | Some d \<Rightarrow> (1, remove_first (matches flt) coll))"

text \<open>\<^verbatim>\<open>find({}).sort("created_at", -1).limit(n)\<close>: newest first. Dates sort above every
  other value; documents whose \<^verbatim>\<open>created_at\<close> is not a date come last, in the order of the
  collection. A limit of 0 is no limit, a negative limit counts as its absolute value.\<close>

definition created_key :: "document \<Rightarrow> nat" where
  "created_key d = (case d ''created_at'' of Some (JTime t) \<Rightarrow> Suc t | _ \<Rightarrow> 0)"

definition sort_created_desc :: "collection \<Rightarrow> collection" where
  "sort_created_desc coll = rev (sort_key created_key (rev coll))"

definition limit_docs :: "int \<Rightarrow> 'a list \<Rightarrow> 'a list" where
  "limit_docs n xs = (if n = 0 then xs else take (nat \<bar>n\<bar>) xs)"

definition find_sorted :: "collection \<Rightarrow> int \<Rightarrow> collection" where
  "find_sorted coll n = limit_docs n (sort_created_desc coll)"

section \<open>Schemas (schemas.py)\<close>

text \<open>
  A pydantic model is the list of its fields in declaration order. A field has a name, the
  type of its values, whether \<^verbatim>\<open>None\<close> is a value (\<^verbatim>\<open>Optional[...]\<close>), and its default
  (no default: the field is required). The classes of \<^verbatim>\<open>schemas.py\<close> set no
  \<^verbatim>\<open>model_config\<close>, so they run with \<^verbatim>\<open>BaseModel\<close>'s defaults: keys of the input that
  are no field of the model are ignored.
\<close>

datatype ftype = TStr | TInt | TEmailStr | TStrList | TLiteral "string list"

record field =
  fname :: string
  ftype :: ftype
  nullable :: bool
  fdefault :: "jval option"

type_synonym schema = "field list"

definition req :: "string \<Rightarrow> ftype \<Rightarrow> field" where
  "req n ty = \<lparr>fname = n, ftype = ty, nullable = False, fdefault = None\<rparr>"

definition opt :: "string \<Rightarrow> ftype \<Rightarrow> field" where
  "opt n ty = \<lparr>fname = n, ftype = ty, nullable = True, fdefault = Some JNull\<rparr>"

definition NewsArticle :: schema where
  "NewsArticle = [req ''title'' TStr, req ''content'' TStr, opt ''author'' TStr,
     opt ''tags'' TStrList, opt ''cover_image'' TStr, opt ''published_at'' TStr]"

definition Announcement :: schema where
  "Announcement = [req ''title'' TStr, req ''content'' TStr, opt ''start_date'' TStr,
     opt ''end_date'' TStr, opt ''audience'' TStrList]"

definition GalleryItem :: schema where
  "GalleryItem = [opt ''title'' TStr, req ''image_url'' TStr, opt ''category'' TStr,
     opt ''caption'' TStr]"

definition AdmissionInfo :: schema where
  "AdmissionInfo = [req ''year'' TStr, req ''description'' TStr, opt ''requirements'' TStrList,
     opt ''important_dates'' TStrList, opt ''registration_link'' TStr]"

definition AcademicCalendarEvent :: schema where
  "AcademicCalendarEvent = [req ''title'' TStr, req ''date'' TStr, opt ''description'' TStr,
     opt ''category'' TStr]"

definition ScheduleEntry :: schema where
  "ScheduleEntry = [req ''type'' (TLiteral [''pelajaran'', ''ujian'', ''piket_guru'']),
     opt ''day'' TStr, opt ''time'' TStr, opt ''subject'' TStr, opt ''class_name'' TStr,
     opt ''teacher'' TStr, opt ''notes'' TStr]"

definition OrgNode :: schema where
  "OrgNode = [req ''title'' TStr, opt ''name'' TStr, opt ''parent_id'' TStr,
     \<lparr>fname = ''order'', ftype = TInt, nullable = True, fdefault = Some (JInt 0)\<rparr>]"

definition Staff :: schema where
  "Staff = [req ''name'' TStr, req ''role'' TStr, opt ''email'' TEmailStr, opt ''phone'' TStr,
     opt ''photo_url'' TStr, opt ''department'' TStr]"

definition Extracurricular :: schema where
  "Extracurricular = [req ''name'' TStr, opt ''coach'' TStr, opt ''description'' TStr,
     opt ''schedule'' TStr, opt ''photo_url'' TStr]"

definition SchoolPage :: schema where
  "SchoolPage = [req ''key'' (TLiteral [''sejarah'', ''visi_misi'', ''fasilitas'', ''kontak_alamat'']),
     opt ''title'' TStr, opt ''content'' TStr]"

definition Achievement :: schema where
  "Achievement = [req ''title'' TStr, opt ''description'' TStr, opt ''date'' TStr,
     opt ''images'' TStrList]"

definition is_str :: "jval \<Rightarrow> bool" where
  "is_str v = (case v of JStr s \<Rightarrow> True | _ \<Rightarrow> False)"

fun validate_value :: "pylib \<Rightarrow> ftype \<Rightarrow> jval \<Rightarrow> jval option" where
  "validate_value L TStr v = (case v of JStr s \<Rightarrow> Some (JStr s) | _ \<Rightarrow> None)"
| "validate_value L TInt v = map_option JInt (int_validator L v)"
| "validate_value L TEmailStr v =
     (case v of JStr s \<Rightarrow> map_option JStr (email_validator L s) | _ \<Rightarrow> None)"
| "validate_value L TStrList v =
     (case v of JList vs \<Rightarrow> if list_all is_str vs then Some (JList vs) else None | _ \<Rightarrow> None)"
| "validate_value L (TLiteral ls) v =
     (case v of JStr s \<Rightarrow> if s \<in> set ls then Some (JStr s) else None | _ \<Rightarrow> None)"

text \<open>One field of \<^verbatim>\<open>Model(**data)\<close>: an absent key takes the default (none: the field is
  missing), \<^verbatim>\<open>None\<close> is accepted by an \<^verbatim>\<open>Optional\<close> field, any other value goes through
  the validator of the type. \<open>None\<close> stands for an error on the field.\<close>

definition validate_field :: "pylib \<Rightarrow> field \<Rightarrow> document \<Rightarrow> jval option" where
  "validate_field L f data =
     (case data (fname f) of
        None \<Rightarrow> fdefault f
      | Some v \<Rightarrow> if nullable f \<and> v = JNull then Some JNull else validate_value L (ftype f) v)"

definition field_errors :: "pylib \<Rightarrow> schema \<Rightarrow> document \<Rightarrow> string list" where
  "field_errors L M data = map fname (filter (\<lambda>f. validate_field L f data = None) M)"

text \<open>\<^verbatim>\<open>Model(**data)\<close>: all field errors are collected; with none, the model holds the
  validated value of each declared field, in declaration order.\<close>

definition model_init :: "pylib \<Rightarrow> schema \<Rightarrow> document \<Rightarrow> error + (string \<times> jval) list" where
  "model_init L M data =
     (if field_errors L M data = []
      then Inr (List.map_filter (\<lambda>f. map_option (Pair (fname f)) (validate_field L f data)) M)
      else Inl (ValidationError (field_errors L M data)))"

definition model_dump :: "(string \<times> jval) list \<Rightarrow> document" where
  "model_dump m = map_of m"

section \<open>The handlers (main.py)\<close>

definition MASTER_ADMIN_EMAIL :: string where
  "MASTER_ADMIN_EMAIL = ''caproktaroy03@gmail.com''"

definition ensure_admin :: "database \<Rightarrow> string option \<Rightarrow> error + jval" where
  "ensure_admin db auth_token =
     (case auth_token of
        None \<Rightarrow> Inl (HTTPException 401 ''Missing auth token'')
      | Some t \<Rightarrow>
          if t = [] then Inl (HTTPException 401 ''Missing auth token'')
          else (case find_one (db ''session'') [(''token'', JStr t), (''active'', JBool True)] of
                  None \<Rightarrow> Inl (HTTPException 401 ''Invalid or expired token'')
                | Some session \<Rightarrow>
                    (case session ''email'' of
                       None \<Rightarrow> Inl (KeyError ''email'')
                     | Some e \<Rightarrow> Inr e)))"

text \<open>The two dict literals of \<^verbatim>\<open>login\<close>: the \<^verbatim>\<open>$set\<close> part of the user upsert and the
  session document.\<close>

definition login_user_set :: "env \<Rightarrow> string \<Rightarrow> document" where
  "login_user_set E email =
     [''email'' \<mapsto> JStr email, ''name'' \<mapsto> JStr ''Admin Master'',
      ''role'' \<mapsto> JStr ''admin'', ''updated_at'' \<mapsto> JTime (now E 0)]"

definition login_session :: "env \<Rightarrow> string \<Rightarrow> string \<Rightarrow> document" where
  "login_session E email token =
     [''email'' \<mapsto> JStr email, ''token'' \<mapsto> JStr token, ''active'' \<mapsto> JBool True,
      ''created_at'' \<mapsto> JTime (now E 2), ''updated_at'' \<mapsto> JTime (now E 3)]"

text \<open>\<^verbatim>\<open>login\<close> gets the address of a parsed \<^verbatim>\<open>LoginRequest\<close>. It answers with the token
  and the address.\<close>

definition login :: "env \<Rightarrow> database \<Rightarrow> string \<Rightarrow> (error + string \<times> string) \<times> database" where
  "login E db payload_email =
     (let email = lower payload_email in
      if email \<noteq> MASTER_ADMIN_EMAIL
      then (Inl (HTTPException 403 ''Anda tidak memiliki akses admin''), db)
      else
        case update_one_upsert (db ''user'') [(''email'', JStr email)] (login_user_set E email)
               [(''created_at'', JTime (now E 1))] (object_id E 0) of
          Inl e \<Rightarrow> (Inl e, db)
        | Inr users \<Rightarrow>
            (let db1 = db(''user'' := users);
                 token = urandom_hex E
             in case insert_one (db1 ''session'') (login_session E email token) (object_id E 1) of
                  Inl e \<Rightarrow> (Inl e, db1)
                | Inr (i, sessions) \<Rightarrow> (Inr (token, email), db1(''session'' := sessions))))"

definition logout :: "env \<Rightarrow> database \<Rightarrow> string option \<Rightarrow> (error + string) \<times> database" where
  "logout E db auth_token =
     (case auth_token of
        None \<Rightarrow> (Inr ''ok'', db)
      | Some t \<Rightarrow>
          if t = [] then (Inr ''ok'', db)
          else (case update_one (db ''session'') [(''token'', JStr t)]
                       [''active'' \<mapsto> JBool False, ''updated_at'' \<mapsto> JTime (now E 0)] of
                  Inl e \<Rightarrow> (Inl e, db)
                | Inr (n, sessions) \<Rightarrow> (Inr ''logged out'', db(''session'' := sessions))))"

definition schema_map :: "string \<rightharpoonup> schema" where
  "schema_map = map_of
     [(''newsarticle'', NewsArticle),
      (''announcement'', Announcement),
      (''galleryitem'', GalleryItem),
      (''admissioninfo'', AdmissionInfo),
      (''academiccalendarevent'', AcademicCalendarEvent),
      (''scheduleentry'', ScheduleEntry),
      (''orgnode'', OrgNode),
      (''staff'', Staff),
      (''extracurricular'', Extracurricular),
      (''schoolpage'', SchoolPage),
      (''achievement'', Achievement)]"

text \<open>\<^verbatim>\<open>str(x)\<close> on an identifier.\<close>

definition str_of :: "pylib \<Rightarrow> jval \<Rightarrow> string" where
  "str_of L v = (case v of JOid h \<Rightarrow> h | JStr s \<Rightarrow> s | _ \<Rightarrow> py_str L v)"

definition create_item ::
  "pylib \<Rightarrow> env \<Rightarrow> database \<Rightarrow> string \<Rightarrow> document \<Rightarrow> (error + string) \<times> database" where
  "create_item L E db collection data =
     (case schema_map collection of
        None \<Rightarrow> (Inl (HTTPException 400 ''Unknown collection''), db)
      | Some Model \<Rightarrow>
          (case model_init L Model data of
             Inl e \<Rightarrow> (Inl e, db)
           | Inr model \<Rightarrow>
               (let doc = model_dump model;
                    doc1 = doc(''created_at'' \<mapsto> JTime (now E 0));
                    doc2 = doc1(''updated_at'' \<mapsto> JTime (now E 1))
                in case insert_one (db collection) doc2 (object_id E 0) of
                     Inl e \<Rightarrow> (Inl e, db)
                   | Inr (i, coll') \<Rightarrow> (Inr (str_of L i), db(collection := coll')))))"

text \<open>\<^verbatim>\<open>ObjectId(id_str)\<close> on a string: a string whose length is not 24 is refused;
  one of length 24 is handed to \<^verbatim>\<open>bytes.fromhex\<close>, and what that returns is the
  identifier. So 24 hexadecimal digits give the usual twelve bytes, and a string of 24
  characters with whitespace between its digit pairs gives fewer bytes and is accepted too.
  The handler turns every exception into the 400 answer.\<close>

definition obj_id :: "string \<Rightarrow> error + string" where
  "obj_id id_str =
     (if length id_str = 24
      then (case fromhex id_str of
              None \<Rightarrow> Inl (HTTPException 400 ''Invalid id'')
            | Some oid \<Rightarrow> Inr oid)
      else Inl (HTTPException 400 ''Invalid id''))"

text \<open>A listed document: \<^verbatim>\<open>it["_id"] = str(it["_id"])\<close>.\<close>

definition str_id_doc :: "pylib \<Rightarrow> document \<Rightarrow> document" where
  "str_id_doc L it = (case it ''_id'' of None \<Rightarrow> it | Some i \<Rightarrow> it(''_id'' \<mapsto> JStr (str_of L i)))"

text \<open>\<^verbatim>\<open>it["_id"] = str(it["_id"])\<close> on each listed document, a \<open>KeyError\<close> where the key
  is missing.\<close>

fun stringify_ids :: "pylib \<Rightarrow> document list \<Rightarrow> error + document list" where
  "stringify_ids L [] = Inr []"
| "stringify_ids L (it # items) =
     (case it ''_id'' of
        None \<Rightarrow> Inl (KeyError ''_id'')
      | Some i \<Rightarrow>
          (case stringify_ids L items of
             Inl e \<Rightarrow> Inl e
           | Inr items' \<Rightarrow> Inr (it(''_id'' \<mapsto> JStr (str_of L i)) # items')))"

definition public_list :: "pylib \<Rightarrow> database \<Rightarrow> string \<Rightarrow> int \<Rightarrow> error + document list" where
  "public_list L db collection limit = stringify_ids L (find_sorted (db collection) limit)"

definition admin_list ::
  "pylib \<Rightarrow> database \<Rightarrow> string option \<Rightarrow> string \<Rightarrow> int \<Rightarrow> error + document list" where
  "admin_list L db auth_token collection limit =
     (case ensure_admin db auth_token of
        Inl e \<Rightarrow> Inl e
      | Inr email \<Rightarrow> stringify_ids L (find_sorted (db collection) limit))"

definition admin_create ::
  "pylib \<Rightarrow> env \<Rightarrow> database \<Rightarrow> string option \<Rightarrow> string \<Rightarrow> document
     \<Rightarrow> (error + string) \<times> database" where
  "admin_create L E db auth_token collection data =
     (case ensure_admin db auth_token of
        Inl e \<Rightarrow> (Inl e, db)
      | Inr email \<Rightarrow> create_item L E db collection data)"

text \<open>The bodies of \<^verbatim>\<open>admin_update\<close>, \<^verbatim>\<open>admin_delete\<close> and \<^verbatim>\<open>set_page\<close>, which run
  once the dependency \<^verbatim>\<open>ensure_admin\<close> has returned. None of them reads the address the
  guard returned.\<close>

definition admin_update_body ::
  "env \<Rightarrow> database \<Rightarrow> string \<Rightarrow> string \<Rightarrow> document \<Rightarrow> (error + string) \<times> database" where
  "admin_update_body E db collection item_id payload =
     (let data = payload(''updated_at'' \<mapsto> JTime (now E 0)) in
      case obj_id item_id of
        Inl e \<Rightarrow> (Inl e, db)
      | Inr oid \<Rightarrow>
          (case update_one (db collection) [(''_id'', JOid oid)] data of
             Inl e \<Rightarrow> (Inl e, db)
           | Inr (matched_count, coll') \<Rightarrow>
               if matched_count = 0
               then (Inl (HTTPException 404 ''Not found''), db(collection := coll'))
               else (Inr ''updated'', db(collection := coll'))))"

definition admin_update ::
  "env \<Rightarrow> database \<Rightarrow> string option \<Rightarrow> string \<Rightarrow> string \<Rightarrow> document
     \<Rightarrow> (error + string) \<times> database" where
  "admin_update E db auth_token collection item_id payload =
     (case ensure_admin db auth_token of
        Inl e \<Rightarrow> (Inl e, db)
      | Inr email \<Rightarrow> admin_update_body E db collection item_id payload)"

definition admin_delete_body ::
  "database \<Rightarrow> string \<Rightarrow> string \<Rightarrow> (error + string) \<times> database" where
  "admin_delete_body db collection item_id =
     (case obj_id item_id of
        Inl e \<Rightarrow> (Inl e, db)
      | Inr oid \<Rightarrow>
          (case delete_one (db collection) [(''_id'', JOid oid)] of
             (deleted_count, coll') \<Rightarrow>
               if deleted_count = 0
               then (Inl (HTTPException 404 ''Not found''), db(collection := coll'))
               else (Inr ''deleted'', db(collection := coll'))))"

definition admin_delete ::
  "database \<Rightarrow> string option \<Rightarrow> string \<Rightarrow> string \<Rightarrow> (error + string) \<times> database" where
  "admin_delete db auth_token collection item_id =
     (case ensure_admin db auth_token of
        Inl e \<Rightarrow> (Inl e, db)
      | Inr email \<Rightarrow> admin_delete_body db collection item_id)"

definition get_page :: "pylib \<Rightarrow> database \<Rightarrow> string \<Rightarrow> error + document" where
  "get_page L db key =
     (case find_one (db ''schoolpage'') [(''key'', JStr key)] of
        None \<Rightarrow> Inr [''key'' \<mapsto> JStr key, ''title'' \<mapsto> JStr '''', ''content'' \<mapsto> JStr '''']
      | Some doc \<Rightarrow>
          (case doc ''_id'' of
             None \<Rightarrow> Inl (KeyError ''_id'')
           | Some i \<Rightarrow> Inr (doc(''_id'' \<mapsto> JStr (str_of L i)))))"

definition set_page_body ::
  "env \<Rightarrow> database \<Rightarrow> string \<Rightarrow> document \<Rightarrow> (error + string) \<times> database" where
  "set_page_body E db key payload =
     (let data = payload(''key'' \<mapsto> JStr key);
          data1 = data(''updated_at'' \<mapsto> JTime (now E 0))
      in case update_one_upsert (db ''schoolpage'') [(''key'', JStr key)] data1
                [(''created_at'', JTime (now E 1))] (object_id E 0) of
           Inl e \<Rightarrow> (Inl e, db)
         | Inr pages \<Rightarrow> (Inr ''saved'', db(''schoolpage'' := pages)))"

definition set_page ::
  "env \<Rightarrow> database \<Rightarrow> string option \<Rightarrow> string \<Rightarrow> document \<Rightarrow> (error + string) \<times> database" where
  "set_page E db auth_token key payload =
     (case ensure_admin db auth_token of
        Inl e \<Rightarrow> (Inl e, db)
      | Inr email \<Rightarrow> set_page_body E db key payload)"

text \<open>A run of page sets, one request after the other on the store the one before left.\<close>

record page_request =
  req_env :: env
  req_token :: "string option"
  req_key :: string
  req_payload :: document

fun set_pages :: "database \<Rightarrow> page_request list \<Rightarrow> database" where
  "set_pages db [] = db"
| "set_pages db (r # rs) =
     set_pages (snd (set_page (req_env r) db (req_token r) (req_key r) (req_payload r))) rs"

text \<open>The number of stored pages with a key.\<close>

definition page_count :: "database \<Rightarrow> string \<Rightarrow> nat" where
  "page_count db key = length (filter (\<lambda>d. d ''key'' = Some (JStr key)) (db ''schoolpage''))"

section \<open>A small store for concrete runs\<close>

text \<open>One active session of the master administrator and one news article, a request
  environment, and simple library validators: the inputs of the concrete runs below.\<close>

definition example_env :: env where
  "example_env =
     \<lparr>now = (\<lambda>k. 1000 + k),
      object_id = (\<lambda>k. if k = 0 then ''aaaaaaaaaaaaaaaaaaaaaaaa'' else ''bbbbbbbbbbbbbbbbbbbbbbbb''),
      urandom_hex = ''00112233445566778899aabbccddeeff0011223344556677''\<rparr>"

definition example_lib :: pylib where
  "example_lib =
     \<lparr>py_str = (\<lambda>v. ''?''),
      int_validator = (\<lambda>v. case v of JInt i \<Rightarrow> Some i | _ \<Rightarrow> None),
      email_validator = Some\<rparr>"

definition example_session :: document where
  "example_session =
     [''_id'' \<mapsto> JOid ''5f0000000000000000000001'', ''email'' \<mapsto> JStr ''caproktaroy03@gmail.com'',
      ''token'' \<mapsto> JStr ''t0ken'', ''active'' \<mapsto> JBool True,
      ''created_at'' \<mapsto> JTime 1, ''updated_at'' \<mapsto> JTime 1]"

definition example_article :: document where
  "example_article =
     [''_id'' \<mapsto> JOid ''640000000000000000000001'', ''title'' \<mapsto> JStr ''Hello'',
      ''content'' \<mapsto> JStr ''World'', ''author'' \<mapsto> JNull, ''tags'' \<mapsto> JNull,
      ''cover_image'' \<mapsto> JNull, ''published_at'' \<mapsto> JNull,
      ''created_at'' \<mapsto> JTime 5, ''updated_at'' \<mapsto> JTime 5]"

definition empty_db :: database where
  "empty_db = (\<lambda>c. [])"

definition example_db :: database where
  "example_db = empty_db(''session'' := [example_session], ''newsarticle'' := [example_article])"

section \<open>Facts about the store operations\<close>

lemma matches_id [simp]: "matches [(k, v)] d \<longleftrightarrow> d k = Some v"
  by (simp add: matches_def)

lemma find_one_None_iff: "find_one coll flt = None \<longleftrightarrow> (\<forall>d\<in>set coll. \<not> matches flt d)"
  by (auto simp: find_one_def find_None_iff)

lemma find_one_SomeD: "find_one coll flt = Some d \<Longrightarrow> d \<in> set coll \<and> matches flt d"
  by (auto simp: find_one_def find_Some_iff)

lemma hex_not_space: "is_hex c \<Longrightarrow> \<not> is_space c"
  by (auto simp: is_hex_def is_space_def)

lemma fromhex_hex: "list_all is_hex s \<Longrightarrow> even (length s) \<Longrightarrow> fromhex s = Some (lower s)"
  by (induction s rule: fromhex.induct) (simp_all add: hex_not_space lower_def)


lemma obj_id_wellformed: "length s = 24 \<Longrightarrow> list_all is_hex s \<Longrightarrow> obj_id s = Inr (lower s)"
  by (simp add: obj_id_def fromhex_hex)

lemma obj_id_error: "obj_id s = Inl e \<Longrightarrow> e = HTTPException 400 ''Invalid id''"
  by (auto simp: obj_id_def split: if_splits option.splits)

lemma example_guard: "ensure_admin example_db (Some ''t0ken'') = Inr (JStr ''caproktaroy03@gmail.com'')"
  by (simp add: ensure_admin_def example_db_def empty_db_def example_session_def find_one_def matches_def)

lemma matches_two [simp]: "matches [(k, v), (k', v')] d \<longleftrightarrow> d k = Some v \<and> d k' = Some v'"
  by (simp add: matches_def)

lemma update_first_none: "find P xs = None \<Longrightarrow> update_first P f xs = xs"
  by (induction xs) (auto split: if_splits)

lemma length_update_first [simp]: "length (update_first P f xs) = length xs"
  by (induction xs) auto

lemma update_first_nth:
  "find P xs = Some x \<Longrightarrow>
     \<exists>i<length xs. xs ! i = x \<and> (\<forall>j<i. \<not> P (xs ! j)) \<and> update_first P f xs = xs[i := f x]"
proof (induction xs)
  case Nil
  then show ?case by simp
next
  case (Cons y ys)
  show ?case
  proof (cases "P y")
    case True
    with Cons.prems have "y = x" by simp
    with True show ?thesis by (intro exI [of _ 0]) simp
  next
    case False
    with Cons.prems have "find P ys = Some x" by simp
    from Cons.IH [OF this] obtain i where i: "i < length ys" "ys ! i = x"
      "\<forall>j<i. \<not> P (ys ! j)" "update_first P f ys = ys[i := f x]" by blast
    have "\<forall>j<Suc i. \<not> P ((y # ys) ! j)"
      using False i(3) by (auto simp: less_Suc_eq_0_disj)
    with i False show ?thesis by (intro exI [of _ "Suc i"]) simp
  qed
qed

lemma set_update_first: "d \<in> set (update_first P f xs) \<Longrightarrow> d \<in> set xs \<or> (\<exists>x\<in>set xs. P x \<and> d = f x)"
  by (induction xs) (auto split: if_splits)

lemma update_first_mem: "find P xs = Some x \<Longrightarrow> f x \<in> set (update_first P f xs)"
  by (induction xs) (auto split: if_splits)

lemma insert_one_fresh:
  "d ''_id'' = None \<Longrightarrow> \<forall>x\<in>set coll. x ''_id'' \<noteq> Some (JOid i) \<Longrightarrow>
     insert_one coll d i = Inr (JOid i, coll @ [d(''_id'' \<mapsto> JOid i)])"
  by (auto simp: insert_one_def insert_doc_def list_ex_iff Let_def)

lemma insert_one_set:
  "insert_one coll d i = Inr (v, coll') \<Longrightarrow> \<exists>w. coll' = coll @ [d(''_id'' \<mapsto> w)]"
  by (auto simp: insert_one_def insert_doc_def Let_def split: if_splits option.splits)

lemma upsert_written:
  assumes "update_one_upsert coll flt upd oi i = Inr coll'" and "d \<in> set coll'"
  shows "d \<in> set coll \<or> (\<exists>x. d = x ++ upd) \<or> (\<exists>w. d = (map_of flt ++ upd ++ map_of oi)(''_id'' \<mapsto> w))"
proof (cases "find_one coll flt")
  case None
  with assms(1) obtain v where "insert_one coll (map_of flt ++ upd ++ map_of oi) i = Inr (v, coll')"
    by (auto simp: update_one_upsert_def split: if_splits sum.splits)
  from insert_one_set [OF this] assms(2) show ?thesis by auto
next
  case (Some x)
  with assms(1) have "coll' = update_first (matches flt) (\<lambda>d. d ++ upd) coll"
    by (auto simp: update_one_upsert_def split: if_splits)
  with assms(2) set_update_first [of d "matches flt" "\<lambda>d. d ++ upd" coll] show ?thesis by blast
qed

lemma map_add_right_None: "n k = None \<Longrightarrow> (m ++ n) k = m k"
  by (simp add: map_add_def)

lemma upsert_insert:
  "find_one coll flt = None \<Longrightarrow> \<not> list_ex (\<lambda>(k, v). upd k \<noteq> None) oi \<Longrightarrow>
     insert_one coll (map_of flt ++ upd ++ map_of oi) i = Inr (v, coll') \<Longrightarrow>
     update_one_upsert coll flt upd oi i = Inr coll'"
  by (simp add: update_one_upsert_def)

lemma upsert_update:
  "find_one coll flt = Some d \<Longrightarrow> \<not> list_ex (\<lambda>(k, v). upd k \<noteq> None) oi \<Longrightarrow>
     \<not> changes_id upd d \<Longrightarrow>
     update_one_upsert coll flt upd oi i = Inr (update_first (matches flt) (\<lambda>d. d ++ upd) coll)"
  by (simp add: update_one_upsert_def)

lemma login_user_set_email [simp]: "login_user_set E e ''email'' = Some (JStr e)"
  by (simp add: login_user_set_def)

lemma login_user_set_other [simp]:
  "login_user_set E e ''_id'' = None" "login_user_set E e ''created_at'' = None"
  by (simp_all add: login_user_set_def)

lemma login_session_fields [simp]:
  "login_session E e t ''email'' = Some (JStr e)" "login_session E e t ''_id'' = None"
  by (simp_all add: login_session_def)

lemma login_user_written:
  assumes "update_one_upsert coll [(''email'', JStr e)] (login_user_set E e)
             [(''created_at'', JTime t)] i = Inr users"
    and "d \<in> set users"
  shows "d \<in> set coll \<or> d ''email'' = Some (JStr e)"
  using upsert_written [OF assms]
  by (elim disjE exE) (simp_all add: map_add_find_right)

lemma login_user_upsert_ok:
  assumes fresh: "\<forall>d\<in>set coll. d ''_id'' \<noteq> Some (JOid i)"
  shows "\<exists>users. update_one_upsert coll [(''email'', JStr e)] (login_user_set E e)
             [(''created_at'', JTime t)] i = Inr users \<and>
           (\<exists>u\<in>set users. u ''email'' = Some (JStr e))"
proof -
  have nc: "\<not> list_ex (\<lambda>(k, v). login_user_set E e k \<noteq> None) [(''created_at'', JTime t)]"
    by simp
  show ?thesis
  proof (cases "find_one coll [(''email'', JStr e)]")
    case None
    define d where "d = map_of [(''email'', JStr e)] ++ login_user_set E e ++ map_of [(''created_at'', JTime t)]"
    have i: "d ''_id'' = None" unfolding d_def by (simp add: map_add_right_None)
    have e: "(d(''_id'' \<mapsto> JOid i)) ''email'' = Some (JStr e)"
      unfolding d_def by (simp add: map_add_find_right)
    have "insert_one coll d i = Inr (JOid i, coll @ [d(''_id'' \<mapsto> JOid i)])"
      using i fresh by (rule insert_one_fresh)
    from upsert_insert [OF None nc this [unfolded d_def]]
    have u: "update_one_upsert coll [(''email'', JStr e)] (login_user_set E e)
             [(''created_at'', JTime t)] i = Inr (coll @ [d(''_id'' \<mapsto> JOid i)])"
      unfolding d_def .
    have "d(''_id'' \<mapsto> JOid i) \<in> set (coll @ [d(''_id'' \<mapsto> JOid i)])" by simp
    with e have "\<exists>u\<in>set (coll @ [d(''_id'' \<mapsto> JOid i)]). u ''email'' = Some (JStr e)"
      by (rule_tac bexI)
    with u show ?thesis by (intro exI conjI)
  next
    case (Some d)
    define f where "f = (\<lambda>d :: document. d ++ login_user_set E e)"
    from Some have "find (matches [(''email'', JStr e)]) coll = Some d" by (simp add: find_one_def)
    from update_first_mem [OF this, of f]
    have m: "f d \<in> set (update_first (matches [(''email'', JStr e)]) f coll)" .
    have e: "(f d) ''email'' = Some (JStr e)" unfolding f_def by (simp add: map_add_find_right)
    have ci: "\<not> changes_id (login_user_set E e) d" by (simp add: changes_id_def)
    from upsert_update [OF Some nc ci]
    have u: "update_one_upsert coll [(''email'', JStr e)] (login_user_set E e)
             [(''created_at'', JTime t)] i = Inr (update_first (matches [(''email'', JStr e)]) f coll)"
      unfolding f_def .
    from m e have "\<exists>u\<in>set (update_first (matches [(''email'', JStr e)]) f coll). u ''email'' = Some (JStr e)"
      by (rule_tac bexI)
    with u show ?thesis by (intro exI conjI)
  qed
qed

lemma login_master:
  "lower pe = MASTER_ADMIN_EMAIL \<Longrightarrow>
   login E db pe =
     (case update_one_upsert (db ''user'') [(''email'', JStr (lower pe))] (login_user_set E (lower pe))
          [(''created_at'', JTime (now E 1))] (object_id E 0) of
        Inl e \<Rightarrow> (Inl e, db)
      | Inr users \<Rightarrow>
          (case insert_one (db ''session'') (login_session E (lower pe) (urandom_hex E)) (object_id E 1) of
             Inl e \<Rightarrow> (Inl e, db(''user'' := users))
           | Inr (i, sessions) \<Rightarrow>
               (Inr (urandom_hex E, lower pe), db(''user'' := users, ''session'' := sessions))))"
  by (auto simp: login_def Let_def split: sum.split prod.split)

lemma login_success:
  assumes m: "lower pe = MASTER_ADMIN_EMAIL"
    and fu: "\<forall>d\<in>set (db ''user''). d ''_id'' \<noteq> Some (JOid (object_id E 0))"
    and fs: "\<forall>d\<in>set (db ''session''). d ''_id'' \<noteq> Some (JOid (object_id E 1))"
  shows "\<exists>db'. login E db pe = (Inr (urandom_hex E, lower pe), db') \<and>
         (\<exists>u\<in>set (db' ''user''). u ''email'' = Some (JStr (lower pe))) \<and>
         db' ''session'' = db ''session'' @ [(login_session E (lower pe) (urandom_hex E))(''_id'' \<mapsto> JOid (object_id E 1))]"
proof -
  from login_user_upsert_ok [of "db ''user''" "object_id E 0" "lower pe" E "now E 1", OF fu]
  obtain users where
    u: "update_one_upsert (db ''user'') [(''email'', JStr (lower pe))] (login_user_set E (lower pe))
          [(''created_at'', JTime (now E 1))] (object_id E 0) = Inr users"
    and ue: "\<exists>u\<in>set users. u ''email'' = Some (JStr (lower pe))" by blast
  have sid: "(login_session E (lower pe) (urandom_hex E)) ''_id'' = None" by simp
  have s: "insert_one (db ''session'') (login_session E (lower pe) (urandom_hex E)) (object_id E 1)
      = Inr (JOid (object_id E 1), db ''session'' @ [(login_session E (lower pe) (urandom_hex E))(''_id'' \<mapsto> JOid (object_id E 1))])"
    using sid fs by (rule insert_one_fresh)
  define db' where "db' = db(''user'' := users, ''session'' := db ''session'' @ [(login_session E (lower pe) (urandom_hex E))(''_id'' \<mapsto> JOid (object_id E 1))])"
  have l: "login E db pe = (Inr (urandom_hex E, lower pe), db')"
    unfolding login_master [OF m] u s db'_def by simp
  have a: "\<exists>u\<in>set (db' ''user''). u ''email'' = Some (JStr (lower pe))"
    using ue by (simp add: db'_def)
  have b: "db' ''session'' = db ''session'' @ [(login_session E (lower pe) (urandom_hex E))(''_id'' \<mapsto> JOid (object_id E 1))]"
    by (simp add: db'_def)
  from l a b show ?thesis by blast
qed

lemma login_written:
  assumes l: "login E db pe = (r, db')" and d: "d \<in> set (db' c)"
  shows "d \<in> set (db c) \<or> ((c = ''user'' \<or> c = ''session'') \<and> d ''email'' = Some (JStr (lower pe)))"
proof (cases "lower pe = MASTER_ADMIN_EMAIL")
  case False
  with l have "db' = db" by (simp add: login_def)
  with d show ?thesis by simp
next
  case True
  note lm = l [unfolded login_master [OF True]]
  show ?thesis
  proof (cases "update_one_upsert (db ''user'') [(''email'', JStr (lower pe))] (login_user_set E (lower pe))
          [(''created_at'', JTime (now E 1))] (object_id E 0)")
    case (Inl e)
    with lm have "db' = db" by simp
    with d show ?thesis by simp
  next
    case u: (Inr users)
    note w = login_user_written [OF u]
    show ?thesis
    proof (cases "insert_one (db ''session'') (login_session E (lower pe) (urandom_hex E)) (object_id E 1)")
      case (Inl e)
      with lm u have db': "db' = db(''user'' := users)" by simp
      show ?thesis
      proof (cases "c = ''user''")
        case True
        with d db' have "d \<in> set users" by simp
        from w [OF this] True show ?thesis by blast
      next
        case False
        with d db' show ?thesis by simp
      qed
    next
      case (Inr p)
      obtain i sessions where p: "p = (i, sessions)" by (cases p)
      from insert_one_set [OF Inr [unfolded p]] obtain w' where
        ss: "sessions = db ''session'' @ [(login_session E (lower pe) (urandom_hex E))(''_id'' \<mapsto> w')]" by blast
      from lm u Inr p have db': "db' = db(''user'' := users, ''session'' := sessions)"
        by simp
      show ?thesis
      proof (cases "c = ''session''")
        case True
        with d db' have "d \<in> set sessions" by simp
        with ss have "d \<in> set (db ''session'') \<or> d = (login_session E (lower pe) (urandom_hex E))(''_id'' \<mapsto> w')" by auto
        then show ?thesis
        proof
          assume "d \<in> set (db ''session'')"
          with True show ?thesis by simp
        next
          assume "d = (login_session E (lower pe) (urandom_hex E))(''_id'' \<mapsto> w')"
          then have "d ''email'' = Some (JStr (lower pe))" by simp
          with True show ?thesis by simp
        qed
      next
        case ns: False
        show ?thesis
        proof (cases "c = ''user''")
          case True
          with d db' have "d \<in> set users" by simp
          from w [OF this] True show ?thesis by blast
        next
          case False
          with ns d db' show ?thesis by simp
        qed
      qed
    qed
  qed
qed


lemma find_one_Some_ex:
  "(\<exists>d. find_one coll flt = Some d) \<longleftrightarrow> (\<exists>d\<in>set coll. matches flt d)"
  using find_one_None_iff [of coll flt] by (cases "find_one coll flt") auto

lemma ensure_admin_Inr_iff:
  "ensure_admin db tok = Inr e \<longleftrightarrow>
     (\<exists>t s. tok = Some t \<and> t \<noteq> [] \<and>
        find_one (db ''session'') [(''token'', JStr t), (''active'', JBool True)] = Some s \<and>
        s ''email'' = Some e)"
  by (auto simp: ensure_admin_def split: option.splits)

lemma ensure_admin_missing:
  "ensure_admin db None = Inl (HTTPException 401 ''Missing auth token'')"
  "ensure_admin db (Some []) = Inl (HTTPException 401 ''Missing auth token'')"
  by (simp_all add: ensure_admin_def)

lemma ensure_admin_invalid:
  assumes "t \<noteq> []"
    and "\<forall>s\<in>set (db ''session''). \<not> (s ''token'' = Some (JStr t) \<and> s ''active'' = Some (JBool True))"
  shows "ensure_admin db (Some t) = Inl (HTTPException 401 ''Invalid or expired token'')"
proof -
  have "find_one (db ''session'') [(''token'', JStr t), (''active'', JBool True)] = None"
    using assms(2) by (simp add: find_one_None_iff)
  with assms(1) show ?thesis by (simp add: ensure_admin_def)
qed

lemma ensure_admin_success_iff:
  assumes "\<forall>s\<in>set (db ''session''). s ''email'' \<noteq> None"
  shows "(\<exists>e. ensure_admin db tok = Inr e) \<longleftrightarrow>
       (\<exists>t. tok = Some t \<and> t \<noteq> [] \<and>
          (\<exists>s\<in>set (db ''session''). s ''token'' = Some (JStr t) \<and> s ''active'' = Some (JBool True)))"
proof
  assume "\<exists>e. ensure_admin db tok = Inr e"
  then obtain e t s where "tok = Some t" "t \<noteq> []"
    and f: "find_one (db ''session'') [(''token'', JStr t), (''active'', JBool True)] = Some s"
    unfolding ensure_admin_Inr_iff by blast
  moreover from find_one_SomeD [OF f] have "s \<in> set (db ''session'')"
    "s ''token'' = Some (JStr t) \<and> s ''active'' = Some (JBool True)" by simp_all
  ultimately show "\<exists>t. tok = Some t \<and> t \<noteq> [] \<and>
          (\<exists>s\<in>set (db ''session''). s ''token'' = Some (JStr t) \<and> s ''active'' = Some (JBool True))"
    by blast
next
  assume "\<exists>t. tok = Some t \<and> t \<noteq> [] \<and>
          (\<exists>s\<in>set (db ''session''). s ''token'' = Some (JStr t) \<and> s ''active'' = Some (JBool True))"
  then obtain t where t: "tok = Some t" "t \<noteq> []"
    and ex: "\<exists>s\<in>set (db ''session''). matches [(''token'', JStr t), (''active'', JBool True)] s"
    by auto
  from ex obtain s where f: "find_one (db ''session'') [(''token'', JStr t), (''active'', JBool True)] = Some s"
    using find_one_Some_ex [of "db ''session''" "[(''token'', JStr t), (''active'', JBool True)]"] by blast
  from find_one_SomeD [OF f] assms obtain e where "s ''email'' = Some e" by auto
  with t f have "ensure_admin db tok = Inr e" unfolding ensure_admin_Inr_iff by blast
  then show "\<exists>e. ensure_admin db tok = Inr e" ..
qed

lemma ensure_admin_session:
  assumes "ensure_admin db tok = Inr e"
  shows "\<exists>t s. tok = Some t \<and> s \<in> set (db ''session'') \<and> s ''token'' = Some (JStr t) \<and>
           s ''active'' = Some (JBool True) \<and> s ''email'' = Some e"
proof -
  from assms obtain t s where "tok = Some t"
    and f: "find_one (db ''session'') [(''token'', JStr t), (''active'', JBool True)] = Some s"
    and "s ''email'' = Some e"
    unfolding ensure_admin_Inr_iff by blast
  moreover from find_one_SomeD [OF f] have "s \<in> set (db ''session'')"
    "s ''token'' = Some (JStr t)" "s ''active'' = Some (JBool True)" by simp_all
  ultimately show ?thesis by blast
qed

lemma admin_ops_authorized:
  assumes "ensure_admin db tok = Inr e"
  shows "admin_list L db tok c n = public_list L db c n"
    and "admin_create L E db tok c data = create_item L E db c data"
    and "ensure_admin db tok' = Inr e' \<Longrightarrow> admin_update E db tok' c i data = admin_update E db tok c i data"
    and "ensure_admin db tok' = Inr e' \<Longrightarrow> admin_delete db tok' c i = admin_delete db tok c i"
    and "ensure_admin db tok' = Inr e' \<Longrightarrow> set_page E db tok' k data = set_page E db tok k data"
  using assms
  by (simp_all add: admin_list_def public_list_def admin_create_def admin_update_def
      admin_delete_def set_page_def)


lemma schema_map_None_iff:
  "schema_map c = None \<longleftrightarrow>
     c \<notin> set [''newsarticle'', ''announcement'', ''galleryitem'', ''admissioninfo'',
       ''academiccalendarevent'', ''scheduleentry'', ''orgnode'', ''staff'', ''extracurricular'',
       ''schoolpage'', ''achievement'']"
  unfolding schema_map_def map_of_eq_None_iff by simp

lemma create_item_unknown:
  "schema_map c = None \<Longrightarrow>
     create_item L E db c data = (Inl (HTTPException 400 ''Unknown collection''), db)"
  by (simp add: create_item_def)

lemma stringify_ids_no_http: "stringify_ids L xs \<noteq> Inl (HTTPException st msg)"
  by (induction xs) (auto split: option.splits sum.splits)

lemma stringify_ids_ok:
  "\<forall>d\<in>set xs. d ''_id'' \<noteq> None \<Longrightarrow> \<exists>items. stringify_ids L xs = Inr items \<and> length items = length xs"
  by (induction xs) (auto split: option.splits sum.splits)

lemma set_find_sorted: "set (find_sorted coll n) \<subseteq> set coll"
proof -
  have "set (limit_docs n (sort_created_desc coll)) \<subseteq> set (sort_created_desc coll)"
    by (auto simp: limit_docs_def dest: in_set_takeD)
  then show ?thesis by (simp add: find_sorted_def sort_created_desc_def)
qed

lemma find_sorted_Nil [simp]: "find_sorted [] n = []"
  by (simp add: find_sorted_def sort_created_desc_def limit_docs_def)

lemma public_list_ok:
  assumes "\<forall>d\<in>set (db c). d ''_id'' \<noteq> None"
  shows "\<exists>items. public_list L db c n = Inr items \<and> length items = length (find_sorted (db c) n)"
proof -
  from assms set_find_sorted [of "db c" n]
  have "\<forall>d\<in>set (find_sorted (db c) n). d ''_id'' \<noteq> None" by blast
  from stringify_ids_ok [OF this] show ?thesis by (simp add: public_list_def)
qed

lemma admin_list_no_400:
  "admin_list L db tok c n \<noteq> Inl (HTTPException 400 ''Unknown collection'')"
  by (auto simp: admin_list_def ensure_admin_def stringify_ids_no_http split: sum.splits option.splits)





lemma guard_runs_body:
  assumes "ensure_admin db tok = Inr e"
  shows "admin_update E db tok c i data = admin_update_body E db c i data"
    and "admin_delete db tok c i = admin_delete_body db c i"
    and "set_page E db tok k data = set_page_body E db k data"
  using assms by (simp_all add: admin_update_def admin_delete_def set_page_def)


lemma update_body_found:
  assumes o: "obj_id i = Inr oid" and f: "find_one (db c) [(''_id'', JOid oid)] = Some d"
    and p: "payload ''_id'' = None \<or> payload ''_id'' = Some (JOid oid)"
  shows "admin_update_body E db c i payload =
     (Inr ''updated'',
      db(c := update_first (matches [(''_id'', JOid oid)])
                (\<lambda>d. d ++ payload(''updated_at'' \<mapsto> JTime (now E 0))) (db c)))"
proof -
  from find_one_SomeD [OF f] have "d ''_id'' = Some (JOid oid)" by simp
  with p have "\<not> changes_id (payload(''updated_at'' \<mapsto> JTime (now E 0))) d"
    by (auto simp: changes_id_def)
  then show ?thesis
    by (simp add: admin_update_body_def o f update_one_def)
qed

lemma delete_body_found:
  assumes o: "obj_id i = Inr oid" and f: "find_one (db c) [(''_id'', JOid oid)] = Some d"
  shows "admin_delete_body db c i =
     (Inr ''deleted'', db(c := remove_first (matches [(''_id'', JOid oid)]) (db c)))"
  by (simp add: admin_delete_body_def o f delete_one_def)

lemma page_doc_eq:
  assumes "payload ''created_at'' = None"
  shows "map_of [(''key'', JStr k)] ++ payload(''key'' \<mapsto> JStr k, ''updated_at'' \<mapsto> t0)
           ++ map_of [(''created_at'', t1)]
         = payload(''key'' \<mapsto> JStr k, ''updated_at'' \<mapsto> t0, ''created_at'' \<mapsto> t1)"
  using assms by (intro ext) (auto simp: map_add_def split: option.splits)

lemma page_no_conflict:
  "payload ''created_at'' = None \<Longrightarrow>
     \<not> list_ex (\<lambda>(k', v). (payload(''key'' \<mapsto> JStr k, ''updated_at'' \<mapsto> t0)) k' \<noteq> None)
          [(''created_at'', t1)]"
  by simp

lemma set_page_body_insert:
  assumes f: "find_one (db ''schoolpage'') [(''key'', JStr k)] = None"
    and c: "payload ''created_at'' = None" and i: "payload ''_id'' = None"
    and fresh: "\<forall>d\<in>set (db ''schoolpage''). d ''_id'' \<noteq> Some (JOid (object_id E 0))"
  shows "set_page_body E db k payload =
     (Inr ''saved'',
      db(''schoolpage'' := db ''schoolpage'' @
        [payload(''key'' \<mapsto> JStr k, ''updated_at'' \<mapsto> JTime (now E 0),
                 ''created_at'' \<mapsto> JTime (now E 1), ''_id'' \<mapsto> JOid (object_id E 0))]))"
proof -
  define doc where "doc = payload(''key'' \<mapsto> JStr k, ''updated_at'' \<mapsto> JTime (now E 0),
      ''created_at'' \<mapsto> JTime (now E 1))"
  have did: "doc ''_id'' = None" using i by (simp add: doc_def)
  have io: "insert_one (db ''schoolpage'') doc (object_id E 0)
      = Inr (JOid (object_id E 0), db ''schoolpage'' @ [doc(''_id'' \<mapsto> JOid (object_id E 0))])"
    using did fresh by (rule insert_one_fresh)
  have "update_one_upsert (db ''schoolpage'') [(''key'', JStr k)]
          (payload(''key'' \<mapsto> JStr k, ''updated_at'' \<mapsto> JTime (now E 0)))
          [(''created_at'', JTime (now E 1))] (object_id E 0)
        = Inr (db ''schoolpage'' @ [doc(''_id'' \<mapsto> JOid (object_id E 0))])"
    by (rule upsert_insert [OF f page_no_conflict [of payload, OF c]])
       (simp only: page_doc_eq [of payload, OF c] doc_def [symmetric] io)
  then show ?thesis by (simp add: set_page_body_def Let_def doc_def)
qed

lemma set_page_body_update:
  assumes f: "find_one (db ''schoolpage'') [(''key'', JStr k)] = Some d"
    and c: "payload ''created_at'' = None"
    and i: "payload ''_id'' = None \<or> payload ''_id'' = d ''_id''"
  shows "set_page_body E db k payload =
     (Inr ''saved'',
      db(''schoolpage'' := update_first (matches [(''key'', JStr k)])
           (\<lambda>d. d ++ payload(''key'' \<mapsto> JStr k, ''updated_at'' \<mapsto> JTime (now E 0)))
           (db ''schoolpage'')))"
proof -
  have "\<not> changes_id (payload(''key'' \<mapsto> JStr k, ''updated_at'' \<mapsto> JTime (now E 0))) d"
    using i by (auto simp: changes_id_def split: option.splits)
  from upsert_update [OF f page_no_conflict [of payload, OF c] this]
  show ?thesis by (simp add: set_page_body_def Let_def)
qed

lemma update_body_status:
  "fst (admin_update_body E db c i payload) = Inl (HTTPException st msg) \<Longrightarrow> st = 400 \<or> st = 404"
  by (auto simp: admin_update_body_def Let_def update_one_def
      split: sum.splits option.splits if_splits dest: obj_id_error)

lemma delete_body_status:
  "fst (admin_delete_body db c i) = Inl (HTTPException st msg) \<Longrightarrow> st = 400 \<or> st = 404"
  by (auto simp: admin_delete_body_def delete_one_def
      split: sum.splits option.splits if_splits dest: obj_id_error)

lemma insert_one_error: "insert_one coll d i = Inl e \<Longrightarrow> e = WriteError ''duplicate key''"
  by (auto simp: insert_one_def insert_doc_def Let_def split: if_splits)

lemma upsert_error: "update_one_upsert coll flt upd oi i = Inl e \<Longrightarrow> \<exists>m. e = WriteError m"
  by (auto simp: update_one_upsert_def split: if_splits option.splits sum.splits
      dest: insert_one_error)

lemma set_page_body_status:
  "fst (set_page_body E db k payload) \<noteq> Inl (HTTPException st msg)"
proof (cases "update_one_upsert (db ''schoolpage'') [(''key'', JStr k)]
          (payload(''key'' \<mapsto> JStr k, ''updated_at'' \<mapsto> JTime (now E 0)))
          [(''created_at'', JTime (now E 1))] (object_id E 0)")
  case (Inl e)
  from upsert_error [OF Inl] Inl show ?thesis by (auto simp: set_page_body_def Let_def)
next
  case (Inr pages)
  then show ?thesis by (simp add: set_page_body_def Let_def)
qed

lemma create_item_status:
  "fst (create_item L E db c data) = Inl (HTTPException st msg) \<Longrightarrow> st = 400"
proof (cases "schema_map c")
  case None
  then show "fst (create_item L E db c data) = Inl (HTTPException st msg) \<Longrightarrow> st = 400"
    by (simp add: create_item_def)
next
  case (Some M)
  assume a: "fst (create_item L E db c data) = Inl (HTTPException st msg)"
  show "st = 400"
  proof (cases "model_init L M data")
    case (Inl e)
    with Some a show ?thesis by (auto simp: create_item_def model_init_def split: if_splits)
  next
    case (Inr model)
    with Some a show ?thesis
      by (auto simp: create_item_def Let_def split: sum.splits dest: insert_one_error)
  qed
qed


lemma stringify_ids_map:
  "\<forall>d\<in>set xs. d ''_id'' \<noteq> None \<Longrightarrow> stringify_ids L xs = Inr (map (str_id_doc L) xs)"
  by (induction xs) (auto simp: str_id_doc_def split: option.splits sum.splits)

lemma public_list_map:
  assumes "\<forall>d\<in>set (db c). d ''_id'' \<noteq> None"
  shows "public_list L db c n = Inr (map (str_id_doc L) (find_sorted (db c) n))"
proof -
  from assms set_find_sorted [of "db c" n]
  have "\<forall>d\<in>set (find_sorted (db c) n). d ''_id'' \<noteq> None" by blast
  from stringify_ids_map [OF this] show ?thesis by (simp add: public_list_def)
qed

lemma count_list_insort_key: "count_list (insort_key f a xs) x = count_list (a # xs) x"
  by (induction xs) auto

lemma count_list_sort_key: "count_list (sort_key f xs) x = count_list xs x"
  by (induction xs) (auto simp: count_list_insort_key)

lemma length_find_sorted:
  "length (find_sorted coll n) = (if n = 0 then length coll else min (nat \<bar>n\<bar>) (length coll))"
  by (auto simp: find_sorted_def limit_docs_def sort_created_desc_def)

lemma count_list_find_sorted: "count_list (find_sorted coll 0) d = count_list coll d"
  by (simp add: find_sorted_def limit_docs_def sort_created_desc_def count_list_sort_key)


lemma validate_field_restrict:
  "fname f \<in> S \<Longrightarrow> validate_field L f (data |` S) = validate_field L f data"
  by (simp add: validate_field_def)

lemma field_errors_restrict:
  "fname ` set M \<subseteq> S \<Longrightarrow> field_errors L M (data |` S) = field_errors L M data"
proof -
  assume s: "fname ` set M \<subseteq> S"
  have "filter (\<lambda>f. validate_field L f (data |` S) = None) M
      = filter (\<lambda>f. validate_field L f data = None) M"
    using s by (intro filter_cong refl) (auto simp: validate_field_restrict)
  then show ?thesis by (simp add: field_errors_def)
qed

lemma map_filter_eqI:
  "(\<And>x. x \<in> set xs \<Longrightarrow> f x = g x) \<Longrightarrow> List.map_filter f xs = List.map_filter g xs"
  by (induction xs) (auto simp: List.map_filter_simps split: option.splits)

lemma model_init_restrict:
  assumes s: "fname ` set M \<subseteq> S"
  shows "model_init L M (data |` S) = model_init L M data"
proof -
  have "List.map_filter (\<lambda>f. map_option (Pair (fname f)) (validate_field L f (data |` S))) M
      = List.map_filter (\<lambda>f. map_option (Pair (fname f)) (validate_field L f data)) M"
    using s by (intro map_filter_eqI) (auto simp: validate_field_restrict)
  with field_errors_restrict [OF s] show ?thesis by (simp add: model_init_def)
qed

lemma create_item_restrict:
  "schema_map c = Some M \<Longrightarrow>
     create_item L E db c (data |` set (map fname M)) = create_item L E db c data"
  by (simp add: create_item_def model_init_restrict)

lemma model_names:
  "fst ` set (List.map_filter (\<lambda>f. map_option (Pair (fname f)) (validate_field L f data)) M)
     \<subseteq> fname ` set M"
  by (induction M) (auto simp: List.map_filter_simps split: option.splits)

lemma map_of_model:
  "distinct (map fname M) \<Longrightarrow> f \<in> set M \<Longrightarrow>
     map_of (List.map_filter (\<lambda>f. map_option (Pair (fname f)) (validate_field L f data)) M) (fname f)
       = validate_field L f data"
proof (induction M)
  case Nil
  then show ?case by simp
next
  case (Cons a M)
  let ?g = "\<lambda>f. map_option (Pair (fname f)) (validate_field L f data)"
  show ?case
  proof (cases "f = a")
    case True
    from Cons.prems(1) have "fname a \<notin> fname ` set M" by simp
    with model_names [of L data M] have "fname a \<notin> fst ` set (List.map_filter ?g M)" by blast
    then have "map_of (List.map_filter ?g M) (fname a) = None"
      by (simp add: map_of_eq_None_iff)
    with True show ?thesis
      by (cases "validate_field L a data") (simp_all add: List.map_filter_simps)
  next
    case False
    with Cons.prems have fm: "f \<in> set M" and d: "distinct (map fname M)"
      and ne: "fname a \<noteq> fname f" by auto
    from Cons.IH [OF d fm] ne show ?thesis
      by (cases "validate_field L a data") (simp_all add: List.map_filter_simps)
  qed
qed

lemma model_init_ok:
  assumes "\<forall>f\<in>set M. validate_field L f data \<noteq> None"
  shows "model_init L M data
     = Inr (List.map_filter (\<lambda>f. map_option (Pair (fname f)) (validate_field L f data)) M)"
proof -
  from assms have "field_errors L M data = []"
    by (auto simp: field_errors_def filter_empty_conv)
  then show ?thesis by (simp add: model_init_def)
qed

lemma model_init_bad:
  assumes "\<exists>f\<in>set M. validate_field L f data = None"
  shows "model_init L M data = Inl (ValidationError (field_errors L M data))"
    and "field_errors L M data \<noteq> []"
    and "set (field_errors L M data) \<subseteq> fname ` set M"
proof -
  from assms show e: "field_errors L M data \<noteq> []"
    by (auto simp: field_errors_def filter_empty_conv)
  then show "model_init L M data = Inl (ValidationError (field_errors L M data))"
    by (simp add: model_init_def)
  show "set (field_errors L M data) \<subseteq> fname ` set M"
    by (auto simp: field_errors_def)
qed

lemma model_init_Inr:
  assumes "model_init L M data = Inr model"
  shows "\<forall>f\<in>set M. validate_field L f data \<noteq> None"
    and "model = List.map_filter (\<lambda>f. map_option (Pair (fname f)) (validate_field L f data)) M"
  using assms by (auto simp: model_init_def field_errors_def filter_empty_conv split: if_splits)

lemma dom_model:
  assumes d: "distinct (map fname M)" and mi: "model_init L M data = Inr model"
  shows "dom (model_dump model) = fname ` set M"
proof
  show "dom (model_dump model) \<subseteq> fname ` set M"
    using model_names [of L data M] model_init_Inr(2) [OF mi]
    by (auto simp: model_dump_def dom_map_of_conv_image_fst)
  show "fname ` set M \<subseteq> dom (model_dump model)"
  proof
    fix n assume "n \<in> fname ` set M"
    then obtain f where f: "f \<in> set M" "n = fname f" by blast
    from map_of_model [OF d f(1), of L data] model_init_Inr [OF mi] f
    show "n \<in> dom (model_dump model)" by (auto simp: model_dump_def)
  qed
qed

lemma schema_map_cases:
  "schema_map c = Some M \<Longrightarrow>
     M \<in> set [NewsArticle, Announcement, GalleryItem, AdmissionInfo, AcademicCalendarEvent,
       ScheduleEntry, OrgNode, Staff, Extracurricular, SchoolPage, Achievement]"
  by (auto simp: schema_map_def split: if_splits)

lemma schema_names:
  assumes "schema_map c = Some M"
  shows "distinct (map fname M)"
    and "''_id'' \<notin> fname ` set M"
    and "''created_at'' \<notin> fname ` set M"
    and "''updated_at'' \<notin> fname ` set M"
proof -
  have "\<forall>M\<in>set [NewsArticle, Announcement, GalleryItem, AdmissionInfo, AcademicCalendarEvent,
       ScheduleEntry, OrgNode, Staff, Extracurricular, SchoolPage, Achievement].
       distinct (map fname M) \<and> ''_id'' \<notin> fname ` set M \<and> ''created_at'' \<notin> fname ` set M \<and>
       ''updated_at'' \<notin> fname ` set M"
    by (simp add: NewsArticle_def Announcement_def GalleryItem_def
        AdmissionInfo_def AcademicCalendarEvent_def ScheduleEntry_def OrgNode_def Staff_def
        Extracurricular_def SchoolPage_def Achievement_def req_def opt_def)
  with schema_map_cases [OF assms]
  show "distinct (map fname M)" "''_id'' \<notin> fname ` set M" "''created_at'' \<notin> fname ` set M"
    "''updated_at'' \<notin> fname ` set M" by blast+
qed

lemma create_item_success:
  assumes s: "schema_map c = Some M" and mi: "model_init L M data = Inr model"
    and fresh: "\<forall>x\<in>set (db c). x ''_id'' \<noteq> Some (JOid (object_id E 0))"
  shows "create_item L E db c data =
     (Inr (object_id E 0),
      db(c := db c @ [(model_dump model)(''created_at'' \<mapsto> JTime (now E 0),
         ''updated_at'' \<mapsto> JTime (now E 1), ''_id'' \<mapsto> JOid (object_id E 0))]))"
proof -
  define doc where "doc = (model_dump model)(''created_at'' \<mapsto> JTime (now E 0), ''updated_at'' \<mapsto> JTime (now E 1))"
  have "dom (model_dump model) = fname ` set M" by (rule dom_model [OF schema_names(1) [OF s] mi])
  with schema_names(2) [OF s] have "model_dump model ''_id'' = None" by blast
  then have did: "doc ''_id'' = None" by (simp add: doc_def)
  have io: "insert_one (db c) doc (object_id E 0)
      = Inr (JOid (object_id E 0), db c @ [doc(''_id'' \<mapsto> JOid (object_id E 0))])"
    using did fresh by (rule insert_one_fresh)
  have "create_item L E db c data = (Inr (object_id E 0), db(c := db c @ [doc(''_id'' \<mapsto> JOid (object_id E 0))]))"
    using s mi io by (simp add: create_item_def Let_def doc_def str_of_def)
  then show ?thesis by (simp add: doc_def)
qed

lemma create_item_invalid:
  assumes s: "schema_map c = Some M" and bad: "\<exists>f\<in>set M. validate_field L f data = None"
  shows "create_item L E db c data = (Inl (ValidationError (field_errors L M data)), db)"
  using s model_init_bad(1) [OF bad] by (simp add: create_item_def)

lemma create_item_result:
  assumes s: "schema_map c = Some M" and r: "create_item L E db c data = (Inr x, db')"
  shows "\<exists>d. db' = db(c := db c @ [d]) \<and>
           dom d = fname ` set M \<union> {''created_at'', ''updated_at'', ''_id''}"
proof -
  from s r obtain model where mi: "model_init L M data = Inr model"
    by (cases "model_init L M data") (simp_all add: create_item_def)
  define doc where "doc = (model_dump model)(''created_at'' \<mapsto> JTime (now E 0), ''updated_at'' \<mapsto> JTime (now E 1))"
  from s r mi obtain v coll' where io: "insert_one (db c) doc (object_id E 0) = Inr (v, coll')"
    and db': "db' = db(c := coll')"
    by (cases "insert_one (db c) doc (object_id E 0)")
       (auto simp: create_item_def Let_def doc_def)
  from insert_one_set [OF io] obtain w where d: "coll' = db c @ [doc(''_id'' \<mapsto> w)]" by blast
  have "dom doc = fname ` set M \<union> {''created_at'', ''updated_at''}"
    unfolding doc_def using dom_model [OF schema_names(1) [OF s] mi] by auto
  then have "dom (doc(''_id'' \<mapsto> w)) = fname ` set M \<union> {''created_at'', ''updated_at'', ''_id''}"
    by auto
  with d db' show ?thesis by blast
qed

lemma create_item_valid:
  assumes s: "schema_map c = Some M" and ok: "\<forall>f\<in>set M. validate_field L f data \<noteq> None"
    and fresh: "\<forall>x\<in>set (db c). x ''_id'' \<noteq> Some (JOid (object_id E 0))"
  shows "\<exists>doc. create_item L E db c data = (Inr (object_id E 0), db(c := db c @ [doc])) \<and>
           (\<forall>f\<in>set M. doc (fname f) = validate_field L f data) \<and>
           doc ''created_at'' = Some (JTime (now E 0)) \<and>
           doc ''updated_at'' = Some (JTime (now E 1)) \<and>
           doc ''_id'' = Some (JOid (object_id E 0)) \<and>
           dom doc = fname ` set M \<union> {''created_at'', ''updated_at'', ''_id''}"
proof -
  define model where "model = List.map_filter (\<lambda>f. map_option (Pair (fname f)) (validate_field L f data)) M"
  define doc where "doc = (model_dump model)(''created_at'' \<mapsto> JTime (now E 0),
         ''updated_at'' \<mapsto> JTime (now E 1), ''_id'' \<mapsto> JOid (object_id E 0))"
  have mi: "model_init L M data = Inr model"
    unfolding model_def by (rule model_init_ok [OF ok])
  have r: "create_item L E db c data = (Inr (object_id E 0), db(c := db c @ [doc]))"
    unfolding doc_def by (rule create_item_success [of c M L data model db E, OF s mi fresh])
  have v: "doc (fname f) = validate_field L f data" if f: "f \<in> set M" for f
  proof -
    from f have "fname f \<in> fname ` set M" by (rule imageI)
    with schema_names(2-4) [OF s] have "fname f \<noteq> ''_id''" "fname f \<noteq> ''created_at''"
      "fname f \<noteq> ''updated_at''" by metis+
    then have "doc (fname f) = model_dump model (fname f)" by (simp add: doc_def)
    also have "\<dots> = validate_field L f data"
      unfolding model_dump_def model_def by (rule map_of_model [OF schema_names(1) [OF s] f])
    finally show ?thesis .
  qed
  have dm: "dom doc = fname ` set M \<union> {''created_at'', ''updated_at'', ''_id''}"
    unfolding doc_def using dom_model [OF schema_names(1) [OF s] mi] by auto
  have t: "doc ''created_at'' = Some (JTime (now E 0))" "doc ''updated_at'' = Some (JTime (now E 1))"
    "doc ''_id'' = Some (JOid (object_id E 0))" by (simp_all add: doc_def)
  from r v t dm show ?thesis by blast
qed

text \<open>
  Claim C8. A login whose address, lower-cased as the handler compares it, is not the
  master administrator's address fails with the 403 answer and returns the store unchanged:
  no user is upserted and no session is inserted.
\<close>

theorem login_rejects_other_email:
  "lower payload_email \<noteq> MASTER_ADMIN_EMAIL \<Longrightarrow>
     login E db payload_email = (Inl (HTTPException 403 ''Anda tidak memiliki akses admin''), db)"
  by (simp add: login_def)

theorem login_rejects_other_email_witness:
  "lower ''admin@example.com'' \<noteq> MASTER_ADMIN_EMAIL \<and>
   login example_env example_db ''admin@example.com''
     = (Inl (HTTPException 403 ''Anda tidak memiliki akses admin''), example_db)"
proof -
  have h: "lower ''admin@example.com'' \<noteq> MASTER_ADMIN_EMAIL"
    by (simp add: lower_def lower_char_def MASTER_ADMIN_EMAIL_def)
  show ?thesis using h login_rejects_other_email [OF h] by simp
qed


text \<open>
  Claim C10. \<^verbatim>\<open>login\<close> lower-cases the address before it compares it with the master
  administrator's address and before it writes to the store. So a login with any
  capitalisation of the master address succeeds (the identifiers generated for the new
  documents being unused, as the generator promises): it answers with the token and the
  lower-case address, a user document carries the lower-case address, and the session
  appended to the store carries it too. And whatever the address and the outcome, every
  document found in the store after \<^verbatim>\<open>login\<close> that was not there before is a user or a
  session whose \<^verbatim>\<open>email\<close> is the lower-case form of the address.
\<close>

theorem login_lowercases_email:
  "(lower payload_email = MASTER_ADMIN_EMAIL \<and>
    (\<forall>d\<in>set (db ''user''). d ''_id'' \<noteq> Some (JOid (object_id E 0))) \<and>
    (\<forall>d\<in>set (db ''session''). d ''_id'' \<noteq> Some (JOid (object_id E 1))) \<longrightarrow>
      (\<exists>db'. login E db payload_email = (Inr (urandom_hex E, lower payload_email), db') \<and>
         (\<exists>u\<in>set (db' ''user''). u ''email'' = Some (JStr (lower payload_email))) \<and>
         db' ''session'' = db ''session'' @
           [(login_session E (lower payload_email) (urandom_hex E))(''_id'' \<mapsto> JOid (object_id E 1))])) \<and>
   (\<forall>r db' c d. login E db payload_email = (r, db') \<and> d \<in> set (db' c) \<longrightarrow>
       d \<in> set (db c) \<or>
       ((c = ''user'' \<or> c = ''session'') \<and> d ''email'' = Some (JStr (lower payload_email))))"
proof (intro conjI impI allI)
  assume "lower payload_email = MASTER_ADMIN_EMAIL \<and>
    (\<forall>d\<in>set (db ''user''). d ''_id'' \<noteq> Some (JOid (object_id E 0))) \<and>
    (\<forall>d\<in>set (db ''session''). d ''_id'' \<noteq> Some (JOid (object_id E 1)))"
  then have m: "lower payload_email = MASTER_ADMIN_EMAIL"
    and fu: "\<forall>d\<in>set (db ''user''). d ''_id'' \<noteq> Some (JOid (object_id E 0))"
    and fs: "\<forall>d\<in>set (db ''session''). d ''_id'' \<noteq> Some (JOid (object_id E 1))"
    by simp_all
  from login_success [OF m fu fs]
  show "\<exists>db'. login E db payload_email = (Inr (urandom_hex E, lower payload_email), db') \<and>
         (\<exists>u\<in>set (db' ''user''). u ''email'' = Some (JStr (lower payload_email))) \<and>
         db' ''session'' = db ''session'' @
           [(login_session E (lower payload_email) (urandom_hex E))(''_id'' \<mapsto> JOid (object_id E 1))]" .
next
  fix r db' c d
  assume "login E db payload_email = (r, db') \<and> d \<in> set (db' c)"
  then have l: "login E db payload_email = (r, db')" and d: "d \<in> set (db' c)" by simp_all
  from login_written [OF l d]
  show "d \<in> set (db c) \<or>
       ((c = ''user'' \<or> c = ''session'') \<and> d ''email'' = Some (JStr (lower payload_email)))" .
qed

theorem login_lowercases_email_witness:
  "lower ''CaprokTaroy03@Gmail.COM'' = MASTER_ADMIN_EMAIL \<and>
   list_all (\<lambda>d. d ''_id'' \<noteq> Some (JOid (object_id example_env 0))) (example_db ''user'') \<and>
   list_all (\<lambda>d. d ''_id'' \<noteq> Some (JOid (object_id example_env 1))) (example_db ''session'') \<and>
   (\<exists>db'. login example_env example_db ''CaprokTaroy03@Gmail.COM''
        = (Inr (urandom_hex example_env, ''caproktaroy03@gmail.com''), db') \<and>
      db' ''session'' = example_db ''session'' @
        [(login_session example_env ''caproktaroy03@gmail.com'' (urandom_hex example_env))
           (''_id'' \<mapsto> JOid (object_id example_env 1))])"
proof -
  have m: "lower ''CaprokTaroy03@Gmail.COM'' = MASTER_ADMIN_EMAIL"
    by (simp add: lower_def lower_char_def MASTER_ADMIN_EMAIL_def)
  have l: "lower ''CaprokTaroy03@Gmail.COM'' = ''caproktaroy03@gmail.com''"
    by (simp add: lower_def lower_char_def)
  have fu: "\<forall>d\<in>set (example_db ''user''). d ''_id'' \<noteq> Some (JOid (object_id example_env 0))"
    by (simp add: example_db_def empty_db_def)
  have fs: "\<forall>d\<in>set (example_db ''session''). d ''_id'' \<noteq> Some (JOid (object_id example_env 1))"
    by (simp add: example_db_def empty_db_def example_session_def example_env_def)
  from login_lowercases_email [of "''CaprokTaroy03@Gmail.COM''" example_db example_env] m fu fs
  have "\<exists>db'. login example_env example_db ''CaprokTaroy03@Gmail.COM''
        = (Inr (urandom_hex example_env, lower ''CaprokTaroy03@Gmail.COM''), db') \<and>
      (\<exists>u\<in>set (db' ''user''). u ''email'' = Some (JStr (lower ''CaprokTaroy03@Gmail.COM''))) \<and>
      db' ''session'' = example_db ''session'' @
        [(login_session example_env (lower ''CaprokTaroy03@Gmail.COM'') (urandom_hex example_env))
           (''_id'' \<mapsto> JOid (object_id example_env 1))]"
    by blast
  then obtain db' where
    "login example_env example_db ''CaprokTaroy03@Gmail.COM''
        = (Inr (urandom_hex example_env, lower ''CaprokTaroy03@Gmail.COM''), db')"
    "db' ''session'' = example_db ''session'' @
        [(login_session example_env (lower ''CaprokTaroy03@Gmail.COM'') (urandom_hex example_env))
           (''_id'' \<mapsto> JOid (object_id example_env 1))]"
    by blast
  then have "\<exists>db'. login example_env example_db ''CaprokTaroy03@Gmail.COM''
        = (Inr (urandom_hex example_env, ''caproktaroy03@gmail.com''), db') \<and>
      db' ''session'' = example_db ''session'' @
        [(login_session example_env ''caproktaroy03@gmail.com'' (urandom_hex example_env))
           (''_id'' \<mapsto> JOid (object_id example_env 1))]"
    unfolding l by (intro exI conjI)
  with m fu fs show ?thesis by (simp only: list_all_iff) 
qed






text \<open>
  Claim C4. The guard \<^verbatim>\<open>ensure_admin\<close> succeeds exactly when the request carries a token
  (an empty header value counts as none, by Python's truth test) that is the token of a
  session stored with \<^verbatim>\<open>active = True\<close>, sessions carrying an \<^verbatim>\<open>email\<close> as those written
  by \<^verbatim>\<open>login\<close> do; it yields the \<^verbatim>\<open>email\<close> of such a session. A missing token and a token
  without active session fail with the same kind of error, status 401, and different
  messages. Once the guard has succeeded every admin operation runs its body, whatever
  address the session carries: the listing is the public one, creation is \<^verbatim>\<open>create_item\<close>,
  update, delete and page set are their bodies and answer the same for any two accepted
  tokens. In particular a delete of a stored document removes it and answers
  \<^verbatim>\<open>deleted\<close>, an update of one merges the payload and answers \<^verbatim>\<open>updated\<close>, a page set for a
  key without page inserts the page and answers \<^verbatim>\<open>saved\<close>; and no admin operation behind
  an accepted token answers with a status other than 400 or 404, so none refuses the
  caller with 401 or 403.
\<close>

theorem ensure_admin_active_session:
  "((\<forall>s\<in>set (db ''session''). s ''email'' \<noteq> None) \<longrightarrow>
      ((\<exists>e. ensure_admin db tok = Inr e) \<longleftrightarrow>
       (\<exists>t. tok = Some t \<and> t \<noteq> [] \<and>
          (\<exists>s\<in>set (db ''session''). s ''token'' = Some (JStr t) \<and> s ''active'' = Some (JBool True))))) \<and>
   (ensure_admin db tok = Inr e \<longrightarrow>
      (\<exists>t s. tok = Some t \<and> s \<in> set (db ''session'') \<and> s ''token'' = Some (JStr t) \<and>
           s ''active'' = Some (JBool True) \<and> s ''email'' = Some e)) \<and>
   ensure_admin db None = Inl (HTTPException 401 ''Missing auth token'') \<and>
   ensure_admin db (Some []) = Inl (HTTPException 401 ''Missing auth token'') \<and>
   (t \<noteq> [] \<and>
    (\<forall>s\<in>set (db ''session''). \<not> (s ''token'' = Some (JStr t) \<and> s ''active'' = Some (JBool True))) \<longrightarrow>
      ensure_admin db (Some t) = Inl (HTTPException 401 ''Invalid or expired token'')) \<and>
   (ensure_admin db tok = Inr e \<longrightarrow>
      admin_list L db tok c n = public_list L db c n \<and>
      admin_create L E db tok c data = create_item L E db c data \<and>
      (\<forall>tok' e'. ensure_admin db tok' = Inr e' \<longrightarrow>
         admin_update E db tok' c i data = admin_update E db tok c i data \<and>
         admin_delete db tok' c i = admin_delete db tok c i \<and>
         set_page E db tok' k data = set_page E db tok k data)) \<and>
   (ensure_admin db tok = Inr e \<longrightarrow>
      admin_update E db tok c i data = admin_update_body E db c i data \<and>
      admin_delete db tok c i = admin_delete_body db c i \<and>
      set_page E db tok k data = set_page_body E db k data) \<and>
   (ensure_admin db tok = Inr e \<and> obj_id i = Inr oid \<and>
    find_one (db c) [(''_id'', JOid oid)] = Some d \<longrightarrow>
      admin_delete db tok c i =
        (Inr ''deleted'', db(c := remove_first (matches [(''_id'', JOid oid)]) (db c))) \<and>
      (data ''_id'' = None \<longrightarrow>
         admin_update E db tok c i data =
           (Inr ''updated'',
            db(c := update_first (matches [(''_id'', JOid oid)])
                      (\<lambda>d. d ++ data(''updated_at'' \<mapsto> JTime (now E 0))) (db c))))) \<and>
   (ensure_admin db tok = Inr e \<and> find_one (db ''schoolpage'') [(''key'', JStr k)] = None \<and>
    data ''created_at'' = None \<and> data ''_id'' = None \<and>
    (\<forall>d\<in>set (db ''schoolpage''). d ''_id'' \<noteq> Some (JOid (object_id E 0))) \<longrightarrow>
      set_page E db tok k data =
        (Inr ''saved'',
         db(''schoolpage'' := db ''schoolpage'' @
           [data(''key'' \<mapsto> JStr k, ''updated_at'' \<mapsto> JTime (now E 0),
                 ''created_at'' \<mapsto> JTime (now E 1), ''_id'' \<mapsto> JOid (object_id E 0))]))) \<and>
   (ensure_admin db tok = Inr e \<longrightarrow>
      (\<forall>st msg.
         admin_list L db tok c n = Inl (HTTPException st msg) \<or>
         fst (admin_create L E db tok c data) = Inl (HTTPException st msg) \<or>
         fst (admin_update E db tok c i data) = Inl (HTTPException st msg) \<or>
         fst (admin_delete db tok c i) = Inl (HTTPException st msg) \<or>
         fst (set_page E db tok k data) = Inl (HTTPException st msg)
         \<longrightarrow> st = 400 \<or> st = 404))"
  (is "?A \<and> ?B \<and> ?C \<and> ?D \<and> ?F \<and> ?G \<and> ?H \<and> ?I \<and> ?J \<and> ?K")
proof -
  have a: ?A by (intro impI) (rule ensure_admin_success_iff)
  have b: ?B by (intro impI) (rule ensure_admin_session)
  have c: ?C and d: ?D by (rule ensure_admin_missing)+
  have f: ?F by (intro impI, elim conjE) (rule ensure_admin_invalid)
  have g: ?G
  proof (intro impI conjI allI)
    assume ok: "ensure_admin db tok = Inr e"
    show "admin_list L db tok c n = public_list L db c n"
      by (rule admin_ops_authorized(1) [OF ok])
    show "admin_create L E db tok c data = create_item L E db c data"
      by (rule admin_ops_authorized(2) [OF ok])
    fix tok' e' assume ok': "ensure_admin db tok' = Inr e'"
    show "admin_update E db tok' c i data = admin_update E db tok c i data"
      by (rule admin_ops_authorized(3) [OF ok ok'])
    show "admin_delete db tok' c i = admin_delete db tok c i"
      by (rule admin_ops_authorized(4) [OF ok ok'])
    show "set_page E db tok' k data = set_page E db tok k data"
      by (rule admin_ops_authorized(5) [OF ok ok'])
  qed
  have h: ?H
  proof (intro impI conjI)
    assume ok: "ensure_admin db tok = Inr e"
    show "admin_update E db tok c i data = admin_update_body E db c i data"
      by (rule guard_runs_body(1) [OF ok])
    show "admin_delete db tok c i = admin_delete_body db c i"
      by (rule guard_runs_body(2) [OF ok])
    show "set_page E db tok k data = set_page_body E db k data"
      by (rule guard_runs_body(3) [OF ok])
  qed
  have i: ?I
  proof (intro impI conjI; elim conjE)
    assume ok: "ensure_admin db tok = Inr e" and o: "obj_id i = Inr oid"
      and fo: "find_one (db c) [(''_id'', JOid oid)] = Some d"
    show "admin_delete db tok c i =
        (Inr ''deleted'', db(c := remove_first (matches [(''_id'', JOid oid)]) (db c)))"
      unfolding guard_runs_body(2) [OF ok] by (rule delete_body_found [of i oid db c d, OF o fo])
    assume "data ''_id'' = None"
    then have p: "data ''_id'' = None \<or> data ''_id'' = Some (JOid oid)" by simp
    show "admin_update E db tok c i data =
           (Inr ''updated'',
            db(c := update_first (matches [(''_id'', JOid oid)])
                      (\<lambda>d. d ++ data(''updated_at'' \<mapsto> JTime (now E 0))) (db c)))"
      unfolding guard_runs_body(1) [OF ok] by (rule update_body_found [of i oid db c d data E, OF o fo p])
  qed
  have j: ?J
  proof (intro impI, elim conjE)
    assume ok: "ensure_admin db tok = Inr e"
      and fo: "find_one (db ''schoolpage'') [(''key'', JStr k)] = None"
      and cr: "data ''created_at'' = None" and di: "data ''_id'' = None"
      and fr: "\<forall>d\<in>set (db ''schoolpage''). d ''_id'' \<noteq> Some (JOid (object_id E 0))"
    show "set_page E db tok k data =
        (Inr ''saved'',
         db(''schoolpage'' := db ''schoolpage'' @
           [data(''key'' \<mapsto> JStr k, ''updated_at'' \<mapsto> JTime (now E 0),
                 ''created_at'' \<mapsto> JTime (now E 1), ''_id'' \<mapsto> JOid (object_id E 0))]))"
      unfolding guard_runs_body(3) [OF ok]
      by (rule set_page_body_insert [of db k data E, OF fo cr di fr])
  qed
  have k: ?K
  proof (intro impI allI)
    fix st msg
    assume ok: "ensure_admin db tok = Inr e"
    assume "admin_list L db tok c n = Inl (HTTPException st msg) \<or>
         fst (admin_create L E db tok c data) = Inl (HTTPException st msg) \<or>
         fst (admin_update E db tok c i data) = Inl (HTTPException st msg) \<or>
         fst (admin_delete db tok c i) = Inl (HTTPException st msg) \<or>
         fst (set_page E db tok k data) = Inl (HTTPException st msg)"
    then consider
        "public_list L db c n = Inl (HTTPException st msg)"
      | "fst (create_item L E db c data) = Inl (HTTPException st msg)"
      | "fst (admin_update_body E db c i data) = Inl (HTTPException st msg)"
      | "fst (admin_delete_body db c i) = Inl (HTTPException st msg)"
      | "fst (set_page_body E db k data) = Inl (HTTPException st msg)"
      unfolding guard_runs_body [OF ok] admin_ops_authorized(1,2) [OF ok] by blast
    then show "st = 400 \<or> st = 404"
    proof cases
      case 1
      then show ?thesis by (simp add: public_list_def stringify_ids_no_http)
    next
      case 2
      from create_item_status [OF 2] show ?thesis by simp
    next
      case 3
      from update_body_status [OF 3] show ?thesis .
    next
      case 4
      from delete_body_status [OF 4] show ?thesis .
    next
      case 5
      with set_page_body_status show ?thesis by blast
    qed
  qed
  from a b c d f g h i j k show ?thesis by (intro conjI)
qed

theorem ensure_admin_active_session_witness:
  "list_all (\<lambda>s. s ''email'' \<noteq> None) (example_db ''session'') \<and>
   (\<exists>e. ensure_admin example_db (Some ''t0ken'') = Inr e) \<and>
   ensure_admin example_db (Some ''stale'') = Inl (HTTPException 401 ''Invalid or expired token'') \<and>
   ensure_admin example_db None = Inl (HTTPException 401 ''Missing auth token'') \<and>
   admin_create example_lib example_env example_db (Some ''t0ken'') ''newsarticle'' [''title'' \<mapsto> JStr ''X'']
     = create_item example_lib example_env example_db ''newsarticle'' [''title'' \<mapsto> JStr ''X''] \<and>
   fst (admin_delete example_db (Some ''t0ken'') ''newsarticle'' ''640000000000000000000001'')
     = Inr ''deleted'' \<and>
   snd (admin_delete example_db (Some ''t0ken'') ''newsarticle'' ''640000000000000000000001'')
       ''newsarticle'' = [] \<and>
   fst (admin_update example_env example_db (Some ''t0ken'') ''newsarticle''
          ''640000000000000000000001'' [''title'' \<mapsto> JStr ''X'']) = Inr ''updated'' \<and>
   hd (snd (admin_update example_env example_db (Some ''t0ken'') ''newsarticle''
          ''640000000000000000000001'' [''title'' \<mapsto> JStr ''X'']) ''newsarticle'') ''title''
     = Some (JStr ''X'') \<and>
   set_page example_env example_db (Some ''t0ken'') ''sejarah'' [''title'' \<mapsto> JStr ''X'']
     = (Inr ''saved'',
        example_db(''schoolpage'' :=
          [[''title'' \<mapsto> JStr ''X'', ''key'' \<mapsto> JStr ''sejarah'',
            ''updated_at'' \<mapsto> JTime (now example_env 0),
            ''created_at'' \<mapsto> JTime (now example_env 1),
            ''_id'' \<mapsto> JOid (object_id example_env 0)]]))"
proof -
  let ?i = "''640000000000000000000001''"
  let ?p = "[''title'' \<mapsto> JStr ''X'']"
  have h: "\<forall>s\<in>set (example_db ''session''). s ''email'' \<noteq> None"
    by (simp add: example_db_def example_session_def)
  have m: "\<exists>t. Some ''t0ken'' = Some t \<and> t \<noteq> [] \<and>
          (\<exists>s\<in>set (example_db ''session''). s ''token'' = Some (JStr t) \<and> s ''active'' = Some (JBool True))"
    by (simp add: example_db_def example_session_def)
  have n: "''stale'' \<noteq> [] \<and> (\<forall>s\<in>set (example_db ''session'').
      \<not> (s ''token'' = Some (JStr ''stale'') \<and> s ''active'' = Some (JBool True)))"
    by (simp add: example_db_def example_session_def)
  have o: "obj_id ?i = Inr ?i"
    by (simp add: obj_id_wellformed is_hex_def lower_def lower_char_def)
  have fo: "find_one (example_db ''newsarticle'') [(''_id'', JOid ?i)] = Some example_article"
    by (simp add: find_one_def example_db_def example_article_def)
  have pi: "?p ''_id'' = None" and pc: "?p ''created_at'' = None" by simp_all
  have fp: "find_one (example_db ''schoolpage'') [(''key'', JStr ''sejarah'')] = None"
    by (simp add: find_one_def example_db_def empty_db_def)
  have fr: "\<forall>d\<in>set (example_db ''schoolpage''). d ''_id'' \<noteq> Some (JOid (object_id example_env 0))"
    by (simp add: example_db_def empty_db_def)
  note t = ensure_admin_active_session [where db = example_db and tok = "Some ''t0ken''"
      and e = "JStr ''caproktaroy03@gmail.com''" and t = "''stale''" and L = example_lib
      and c = "''newsarticle''" and n = 50 and E = example_env and data = ?p and i = ?i
      and k = "''sejarah''" and oid = ?i and d = example_article]
  from t h m have 1: "\<exists>e. ensure_admin example_db (Some ''t0ken'') = Inr e" by blast
  from t n have 2: "ensure_admin example_db (Some ''stale'') = Inl (HTTPException 401 ''Invalid or expired token'')"
    by blast
  from t have 3: "ensure_admin example_db None = Inl (HTTPException 401 ''Missing auth token'')"
    by blast
  from t example_guard have 4: "admin_create example_lib example_env example_db (Some ''t0ken'') ''newsarticle'' ?p
     = create_item example_lib example_env example_db ''newsarticle'' ?p" by blast
  from t example_guard o fo have del: "admin_delete example_db (Some ''t0ken'') ''newsarticle'' ?i =
        (Inr ''deleted'', example_db(''newsarticle'' :=
           remove_first (matches [(''_id'', JOid ?i)]) (example_db ''newsarticle'')))"
    by blast
  from t example_guard o fo pi have upd: "admin_update example_env example_db (Some ''t0ken'') ''newsarticle'' ?i ?p =
           (Inr ''updated'',
            example_db(''newsarticle'' := update_first (matches [(''_id'', JOid ?i)])
                      (\<lambda>d. d ++ ?p(''updated_at'' \<mapsto> JTime (now example_env 0)))
                      (example_db ''newsarticle'')))"
    by blast
  from t example_guard fp pc pi fr have sp: "set_page example_env example_db (Some ''t0ken'') ''sejarah'' ?p =
        (Inr ''saved'',
         example_db(''schoolpage'' := example_db ''schoolpage'' @
           [?p(''key'' \<mapsto> JStr ''sejarah'', ''updated_at'' \<mapsto> JTime (now example_env 0),
                 ''created_at'' \<mapsto> JTime (now example_env 1),
                 ''_id'' \<mapsto> JOid (object_id example_env 0))]))"
    by blast
  have 5: "fst (admin_delete example_db (Some ''t0ken'') ''newsarticle'' ?i) = Inr ''deleted''"
    unfolding del by simp
  have 6: "snd (admin_delete example_db (Some ''t0ken'') ''newsarticle'' ?i) ''newsarticle'' = []"
    unfolding del by (simp add: example_db_def example_article_def)
  have 7: "fst (admin_update example_env example_db (Some ''t0ken'') ''newsarticle'' ?i ?p) = Inr ''updated''"
    unfolding upd by simp
  have 8: "hd (snd (admin_update example_env example_db (Some ''t0ken'') ''newsarticle'' ?i ?p)
      ''newsarticle'') ''title'' = Some (JStr ''X'')"
    unfolding upd by (simp add: example_db_def example_article_def)
  have 9: "set_page example_env example_db (Some ''t0ken'') ''sejarah'' ?p
     = (Inr ''saved'',
        example_db(''schoolpage'' :=
          [[''title'' \<mapsto> JStr ''X'', ''key'' \<mapsto> JStr ''sejarah'',
            ''updated_at'' \<mapsto> JTime (now example_env 0),
            ''created_at'' \<mapsto> JTime (now example_env 1),
            ''_id'' \<mapsto> JOid (object_id example_env 0)]]))"
    unfolding sp by (simp add: example_db_def empty_db_def)
  from h have 0: "list_all (\<lambda>s. s ''email'' \<noteq> None) (example_db ''session'')"
    by (simp only: list_all_iff)
  from 0 1 2 3 4 5 6 7 8 9 show ?thesis by (intro conjI)
qed

text \<open>
  Claim C1, as amended. For every collection name that is not one of the eleven names of
  \<^verbatim>\<open>schema_map\<close>, \<^verbatim>\<open>create_item\<close> (and \<^verbatim>\<open>admin_create\<close> behind an accepted token) fails with
  the 400 answer \<^verbatim>\<open>Unknown collection\<close> and leaves the store unchanged. The list operations
  do not look the name up: they never give that answer, and where the stored documents
  carry identifiers both listings return the documents the query finds under the name,
  each with its identifier as a string. What the query finds are documents of that
  collection, as many as the limit allows, and without a limit every one of them as often
  as it is stored. The claim as stated fails on the listings: the name \<^verbatim>\<open>session\<close> is none
  of the eleven, and both listings return the stored session.
\<close>

theorem unknown_collection_create_only:
  "c \<notin> set [''newsarticle'', ''announcement'', ''galleryitem'', ''admissioninfo'',
       ''academiccalendarevent'', ''scheduleentry'', ''orgnode'', ''staff'', ''extracurricular'',
       ''schoolpage'', ''achievement''] \<longrightarrow>
     create_item L E db c data = (Inl (HTTPException 400 ''Unknown collection''), db) \<and>
     (ensure_admin db tok = Inr em \<longrightarrow>
        admin_create L E db tok c data = (Inl (HTTPException 400 ''Unknown collection''), db)) \<and>
     public_list L db c n \<noteq> Inl (HTTPException 400 ''Unknown collection'') \<and>
     admin_list L db tok c n \<noteq> Inl (HTTPException 400 ''Unknown collection'') \<and>
     ((\<forall>d\<in>set (db c). d ''_id'' \<noteq> None) \<longrightarrow>
        public_list L db c n = Inr (map (str_id_doc L) (find_sorted (db c) n)) \<and>
        (ensure_admin db tok = Inr em \<longrightarrow>
           admin_list L db tok c n = Inr (map (str_id_doc L) (find_sorted (db c) n)))) \<and>
     (set (find_sorted (db c) n) \<subseteq> set (db c) \<and>
      length (find_sorted (db c) n) = (if n = 0 then length (db c) else min (nat \<bar>n\<bar>) (length (db c))) \<and>
      (\<forall>d. count_list (find_sorted (db c) 0) d = count_list (db c) d))"
proof (intro impI)
  assume "c \<notin> set [''newsarticle'', ''announcement'', ''galleryitem'', ''admissioninfo'',
       ''academiccalendarevent'', ''scheduleentry'', ''orgnode'', ''staff'', ''extracurricular'',
       ''schoolpage'', ''achievement'']"
  then have u: "schema_map c = None" by (rule iffD2 [OF schema_map_None_iff])
  have 1: "create_item L E db c data = (Inl (HTTPException 400 ''Unknown collection''), db)"
    by (rule create_item_unknown [OF u])
  have 2: "(ensure_admin db tok = Inr em \<longrightarrow>
        admin_create L E db tok c data = (Inl (HTTPException 400 ''Unknown collection''), db))"
    by (simp add: admin_create_def 1)
  have 3: "public_list L db c n \<noteq> Inl (HTTPException 400 ''Unknown collection'')"
    by (simp add: public_list_def stringify_ids_no_http)
  have 4: "admin_list L db tok c n \<noteq> Inl (HTTPException 400 ''Unknown collection'')"
    by (rule admin_list_no_400)
  have 5: "((\<forall>d\<in>set (db c). d ''_id'' \<noteq> None) \<longrightarrow>
        public_list L db c n = Inr (map (str_id_doc L) (find_sorted (db c) n)) \<and>
        (ensure_admin db tok = Inr em \<longrightarrow>
           admin_list L db tok c n = Inr (map (str_id_doc L) (find_sorted (db c) n))))"
  proof (intro impI conjI)
    assume i: "\<forall>d\<in>set (db c). d ''_id'' \<noteq> None"
    show p: "public_list L db c n = Inr (map (str_id_doc L) (find_sorted (db c) n))"
      by (rule public_list_map [of db c, OF i])
    assume "ensure_admin db tok = Inr em"
    then have "admin_list L db tok c n = public_list L db c n"
      by (simp add: admin_list_def public_list_def)
    with p show "admin_list L db tok c n = Inr (map (str_id_doc L) (find_sorted (db c) n))"
      by simp
  qed
  have 6: "(set (find_sorted (db c) n) \<subseteq> set (db c) \<and>
      length (find_sorted (db c) n) = (if n = 0 then length (db c) else min (nat \<bar>n\<bar>) (length (db c))) \<and>
      (\<forall>d. count_list (find_sorted (db c) 0) d = count_list (db c) d))"
    by (intro conjI allI) (rule set_find_sorted, rule length_find_sorted, rule count_list_find_sorted)
  note sa = conjunct1 [OF 6] and sb = conjunct1 [OF conjunct2 [OF 6]]
    and sc = conjunct2 [OF conjunct2 [OF 6]]
  from 1 2 3 4 5 sa sb sc show "create_item L E db c data = (Inl (HTTPException 400 ''Unknown collection''), db) \<and>
     (ensure_admin db tok = Inr em \<longrightarrow>
        admin_create L E db tok c data = (Inl (HTTPException 400 ''Unknown collection''), db)) \<and>
     public_list L db c n \<noteq> Inl (HTTPException 400 ''Unknown collection'') \<and>
     admin_list L db tok c n \<noteq> Inl (HTTPException 400 ''Unknown collection'') \<and>
     ((\<forall>d\<in>set (db c). d ''_id'' \<noteq> None) \<longrightarrow>
        public_list L db c n = Inr (map (str_id_doc L) (find_sorted (db c) n)) \<and>
        (ensure_admin db tok = Inr em \<longrightarrow>
           admin_list L db tok c n = Inr (map (str_id_doc L) (find_sorted (db c) n)))) \<and>
     (set (find_sorted (db c) n) \<subseteq> set (db c) \<and>
      length (find_sorted (db c) n) = (if n = 0 then length (db c) else min (nat \<bar>n\<bar>) (length (db c))) \<and>
      (\<forall>d. count_list (find_sorted (db c) 0) d = count_list (db c) d))"
    by (intro conjI)
qed

theorem list_unknown_collection_counterexample:
  "schema_map ''session'' = None \<and>
   public_list example_lib example_db ''session'' 50
     = Inr [example_session(''_id'' \<mapsto> JStr ''5f0000000000000000000001'')] \<and>
   admin_list example_lib example_db (Some ''t0ken'') ''session'' 200
     = Inr [example_session(''_id'' \<mapsto> JStr ''5f0000000000000000000001'')] \<and>
   public_list example_lib example_db ''nosuchcollection'' 50 = Inr []"
proof -
  have 1: "schema_map ''session'' = None" by (simp add: schema_map_None_iff)
  have i: "example_session ''_id'' = Some (JOid ''5f0000000000000000000001'')"
    by (simp add: example_session_def)
  have s: "find_sorted (example_db ''session'') n = [example_session]" if "n \<noteq> 0" for n :: int
    using that by (simp add: find_sorted_def sort_created_desc_def limit_docs_def example_db_def)
  have 2: "public_list example_lib example_db ''session'' 50
     = Inr [example_session(''_id'' \<mapsto> JStr ''5f0000000000000000000001'')]"
    by (simp add: public_list_def s i str_of_def)
  have 3: "admin_list example_lib example_db (Some ''t0ken'') ''session'' 200
     = Inr [example_session(''_id'' \<mapsto> JStr ''5f0000000000000000000001'')]"
    by (simp add: admin_list_def example_guard s i str_of_def)
  have 4: "public_list example_lib example_db ''nosuchcollection'' 50 = Inr []"
    by (simp add: public_list_def example_db_def empty_db_def)
  from 1 2 3 4 show ?thesis by (intro conjI)
qed

theorem unknown_collection_create_only_witness:
  "schema_map ''session'' = None \<and>
   create_item example_lib example_env example_db ''session'' [''token'' \<mapsto> JStr ''forged'']
     = (Inl (HTTPException 400 ''Unknown collection''), example_db) \<and>
   admin_create example_lib example_env example_db (Some ''t0ken'') ''session'' [''token'' \<mapsto> JStr ''forged'']
     = (Inl (HTTPException 400 ''Unknown collection''), example_db) \<and>
   public_list example_lib example_db ''session'' 50
     = Inr (map (str_id_doc example_lib) (find_sorted (example_db ''session'') 50)) \<and>
   admin_list example_lib example_db (Some ''t0ken'') ''session'' 50
     = Inr (map (str_id_doc example_lib) (find_sorted (example_db ''session'') 50)) \<and>
   map (str_id_doc example_lib) (find_sorted (example_db ''session'') 50)
     = [example_session(''_id'' \<mapsto> JStr ''5f0000000000000000000001'')]"
proof -
  have h: "''session'' \<notin> set [''newsarticle'', ''announcement'', ''galleryitem'', ''admissioninfo'',
       ''academiccalendarevent'', ''scheduleentry'', ''orgnode'', ''staff'', ''extracurricular'',
       ''schoolpage'', ''achievement'']" by simp
  have ids: "\<forall>d\<in>set (example_db ''session''). d ''_id'' \<noteq> None"
    by (simp add: example_db_def example_session_def)
  note t = unknown_collection_create_only [of "''session''" example_lib example_env example_db
      "[''token'' \<mapsto> JStr ''forged'']" "Some ''t0ken''" "JStr ''caproktaroy03@gmail.com''" 50]
  have 0: "schema_map ''session'' = None" by (simp add: schema_map_None_iff)
  from t h have 1: "create_item example_lib example_env example_db ''session'' [''token'' \<mapsto> JStr ''forged'']
     = (Inl (HTTPException 400 ''Unknown collection''), example_db)" by blast
  from t h example_guard have 2: "admin_create example_lib example_env example_db (Some ''t0ken'') ''session'' [''token'' \<mapsto> JStr ''forged'']
     = (Inl (HTTPException 400 ''Unknown collection''), example_db)" by blast
  from t h ids have 3: "public_list example_lib example_db ''session'' 50
     = Inr (map (str_id_doc example_lib) (find_sorted (example_db ''session'') 50))" by blast
  from t h ids example_guard have 4: "admin_list example_lib example_db (Some ''t0ken'') ''session'' 50
     = Inr (map (str_id_doc example_lib) (find_sorted (example_db ''session'') 50))" by blast
  have 5: "map (str_id_doc example_lib) (find_sorted (example_db ''session'') 50)
     = [example_session(''_id'' \<mapsto> JStr ''5f0000000000000000000001'')]"
    by (simp add: find_sorted_def sort_created_desc_def limit_docs_def example_db_def
        str_id_doc_def str_of_def example_session_def)
  from 0 1 2 3 4 5 show ?thesis by (intro conjI)
qed


text \<open>
  Claim C3, as amended. The models of \<^verbatim>\<open>schemas.py\<close> run with pydantic's default
  configuration, which ignores keys of the input that are no field of the model. So for
  every known collection, \<^verbatim>\<open>create_item\<close> treats a payload as it treats the payload without
  its undeclared fields: same answer, same store. A document it inserts carries exactly
  the declared fields, \<^verbatim>\<open>created_at\<close>, \<^verbatim>\<open>updated_at\<close> and \<^verbatim>\<open>_id\<close>. It fails with
  \<^verbatim>\<open>ValidationError\<close>, naming declared fields only and leaving the store unchanged, exactly
  when a declared field is missing or has a value of the wrong type; when every declared
  field validates (and the generated identifier is unused) it inserts the validated values
  with the two timestamps. The claim as stated fails: a news article whose payload has the
  extra field \<^verbatim>\<open>is_admin\<close> is created, without that field.
\<close>

theorem create_ignores_undeclared_fields:
  "schema_map c = Some M \<longrightarrow>
     create_item L E db c data = create_item L E db c (data |` set (map fname M)) \<and>
     (\<forall>x db'. create_item L E db c data = (Inr x, db') \<longrightarrow>
        (\<exists>d. db' = db(c := db c @ [d]) \<and>
           dom d = fname ` set M \<union> {''created_at'', ''updated_at'', ''_id''})) \<and>
     ((\<exists>f\<in>set M. validate_field L f data = None) \<longrightarrow>
        create_item L E db c data = (Inl (ValidationError (field_errors L M data)), db) \<and>
        field_errors L M data \<noteq> [] \<and> set (field_errors L M data) \<subseteq> fname ` set M) \<and>
     ((\<forall>f\<in>set M. validate_field L f data \<noteq> None) \<and>
      (\<forall>x\<in>set (db c). x ''_id'' \<noteq> Some (JOid (object_id E 0))) \<longrightarrow>
        (\<exists>doc. create_item L E db c data = (Inr (object_id E 0), db(c := db c @ [doc])) \<and>
           (\<forall>f\<in>set M. doc (fname f) = validate_field L f data) \<and>
           doc ''created_at'' = Some (JTime (now E 0)) \<and>
           doc ''updated_at'' = Some (JTime (now E 1)) \<and>
           doc ''_id'' = Some (JOid (object_id E 0)) \<and>
           dom doc = fname ` set M \<union> {''created_at'', ''updated_at'', ''_id''})) \<and>
     (\<forall>errs db'. create_item L E db c data = (Inl (ValidationError errs), db') \<longrightarrow>
        db' = db \<and> errs = field_errors L M data \<and>
        (\<exists>f\<in>set M. validate_field L f data = None))"
proof (intro impI)
  assume s: "schema_map c = Some M"
  have a: "create_item L E db c data = create_item L E db c (data |` set (map fname M))"
    by (rule create_item_restrict [OF s, symmetric])
  have b: "(\<forall>x db'. create_item L E db c data = (Inr x, db') \<longrightarrow>
        (\<exists>d. db' = db(c := db c @ [d]) \<and>
           dom d = fname ` set M \<union> {''created_at'', ''updated_at'', ''_id''}))"
  proof (intro allI impI)
    fix x db'
    assume "create_item L E db c data = (Inr x, db')"
    from create_item_result [OF s this]
    show "\<exists>d. db' = db(c := db c @ [d]) \<and>
           dom d = fname ` set M \<union> {''created_at'', ''updated_at'', ''_id''}" .
  qed
  have c: "((\<exists>f\<in>set M. validate_field L f data = None) \<longrightarrow>
        create_item L E db c data = (Inl (ValidationError (field_errors L M data)), db) \<and>
        field_errors L M data \<noteq> [] \<and> set (field_errors L M data) \<subseteq> fname ` set M)"
  proof (intro impI conjI)
    assume bad: "\<exists>f\<in>set M. validate_field L f data = None"
    show "create_item L E db c data = (Inl (ValidationError (field_errors L M data)), db)"
      by (rule create_item_invalid [OF s bad])
    show "field_errors L M data \<noteq> []" by (rule model_init_bad(2) [OF bad])
    show "set (field_errors L M data) \<subseteq> fname ` set M" by (rule model_init_bad(3) [OF bad])
  qed
  have d: "((\<forall>f\<in>set M. validate_field L f data \<noteq> None) \<and>
      (\<forall>x\<in>set (db c). x ''_id'' \<noteq> Some (JOid (object_id E 0))) \<longrightarrow>
        (\<exists>doc. create_item L E db c data = (Inr (object_id E 0), db(c := db c @ [doc])) \<and>
           (\<forall>f\<in>set M. doc (fname f) = validate_field L f data) \<and>
           doc ''created_at'' = Some (JTime (now E 0)) \<and>
           doc ''updated_at'' = Some (JTime (now E 1)) \<and>
           doc ''_id'' = Some (JOid (object_id E 0)) \<and>
           dom doc = fname ` set M \<union> {''created_at'', ''updated_at'', ''_id''}))"
  proof (intro impI, elim conjE)
    assume ok: "\<forall>f\<in>set M. validate_field L f data \<noteq> None"
      and fresh: "\<forall>x\<in>set (db c). x ''_id'' \<noteq> Some (JOid (object_id E 0))"
    show "\<exists>doc. create_item L E db c data = (Inr (object_id E 0), db(c := db c @ [doc])) \<and>
           (\<forall>f\<in>set M. doc (fname f) = validate_field L f data) \<and>
           doc ''created_at'' = Some (JTime (now E 0)) \<and>
           doc ''updated_at'' = Some (JTime (now E 1)) \<and>
           doc ''_id'' = Some (JOid (object_id E 0)) \<and>
           dom doc = fname ` set M \<union> {''created_at'', ''updated_at'', ''_id''}"
      by (rule create_item_valid [of c M L data db E, OF s ok fresh])
  qed
  have e: "(\<forall>errs db'. create_item L E db c data = (Inl (ValidationError errs), db') \<longrightarrow>
        db' = db \<and> errs = field_errors L M data \<and>
        (\<exists>f\<in>set M. validate_field L f data = None))"
  proof (intro allI impI)
    fix errs db'
    assume r: "create_item L E db c data = (Inl (ValidationError errs), db')"
    have m: "db' = db \<and> model_init L M data = Inl (ValidationError errs)"
    proof (cases "model_init L M data")
      case (Inl x)
      with s r show ?thesis by (simp add: create_item_def)
    next
      case (Inr model)
      with s r show ?thesis
        by (auto simp: create_item_def Let_def split: sum.splits dest: insert_one_error)
    qed
    then have bad: "\<exists>f\<in>set M. validate_field L f data = None"
      using model_init_ok [of M L data] by (cases "\<exists>f\<in>set M. validate_field L f data = None") auto
    from model_init_bad(1) [OF bad] m have "errs = field_errors L M data" by simp
    with m bad show "db' = db \<and> errs = field_errors L M data \<and>
        (\<exists>f\<in>set M. validate_field L f data = None)" by simp
  qed
  from a b c d e show "create_item L E db c data = create_item L E db c (data |` set (map fname M)) \<and>
     (\<forall>x db'. create_item L E db c data = (Inr x, db') \<longrightarrow>
        (\<exists>d. db' = db(c := db c @ [d]) \<and>
           dom d = fname ` set M \<union> {''created_at'', ''updated_at'', ''_id''})) \<and>
     ((\<exists>f\<in>set M. validate_field L f data = None) \<longrightarrow>
        create_item L E db c data = (Inl (ValidationError (field_errors L M data)), db) \<and>
        field_errors L M data \<noteq> [] \<and> set (field_errors L M data) \<subseteq> fname ` set M) \<and>
     ((\<forall>f\<in>set M. validate_field L f data \<noteq> None) \<and>
      (\<forall>x\<in>set (db c). x ''_id'' \<noteq> Some (JOid (object_id E 0))) \<longrightarrow>
        (\<exists>doc. create_item L E db c data = (Inr (object_id E 0), db(c := db c @ [doc])) \<and>
           (\<forall>f\<in>set M. doc (fname f) = validate_field L f data) \<and>
           doc ''created_at'' = Some (JTime (now E 0)) \<and>
           doc ''updated_at'' = Some (JTime (now E 1)) \<and>
           doc ''_id'' = Some (JOid (object_id E 0)) \<and>
           dom doc = fname ` set M \<union> {''created_at'', ''updated_at'', ''_id''})) \<and>
     (\<forall>errs db'. create_item L E db c data = (Inl (ValidationError errs), db') \<longrightarrow>
        db' = db \<and> errs = field_errors L M data \<and>
        (\<exists>f\<in>set M. validate_field L f data = None))"
    by (intro conjI)
qed

theorem create_extra_field_counterexample:
  "schema_map ''newsarticle'' = Some NewsArticle \<and>
   ''is_admin'' \<notin> set (map fname NewsArticle) \<and>
   fst (create_item example_lib example_env example_db ''newsarticle''
          [''title'' \<mapsto> JStr ''T'', ''content'' \<mapsto> JStr ''C'', ''is_admin'' \<mapsto> JBool True])
     = Inr ''aaaaaaaaaaaaaaaaaaaaaaaa'' \<and>
   length (snd (create_item example_lib example_env example_db ''newsarticle''
          [''title'' \<mapsto> JStr ''T'', ''content'' \<mapsto> JStr ''C'', ''is_admin'' \<mapsto> JBool True])
        ''newsarticle'') = 2 \<and>
   last (snd (create_item example_lib example_env example_db ''newsarticle''
          [''title'' \<mapsto> JStr ''T'', ''content'' \<mapsto> JStr ''C'', ''is_admin'' \<mapsto> JBool True])
        ''newsarticle'') ''title'' = Some (JStr ''T'') \<and>
   last (snd (create_item example_lib example_env example_db ''newsarticle''
          [''title'' \<mapsto> JStr ''T'', ''content'' \<mapsto> JStr ''C'', ''is_admin'' \<mapsto> JBool True])
        ''newsarticle'') ''is_admin'' = None"
proof -
  let ?p = "[''title'' \<mapsto> JStr ''T'', ''content'' \<mapsto> JStr ''C'', ''is_admin'' \<mapsto> JBool True]"
  let ?m = "[(''title'', JStr ''T''), (''content'', JStr ''C''), (''author'', JNull),
            (''tags'', JNull), (''cover_image'', JNull), (''published_at'', JNull)]"
  have s: "schema_map ''newsarticle'' = Some NewsArticle" by (simp add: schema_map_def)
  have mi: "model_init example_lib NewsArticle ?p = Inr ?m"
    by (simp add: model_init_def field_errors_def validate_field_def NewsArticle_def req_def
        opt_def List.map_filter_simps)
  have fresh: "\<forall>x\<in>set (example_db ''newsarticle''). x ''_id'' \<noteq> Some (JOid (object_id example_env 0))"
    by (simp add: example_db_def example_article_def example_env_def)
  note r = create_item_success [of "''newsarticle''" NewsArticle example_lib ?p ?m example_db
      example_env, OF s mi fresh]
  have 0: "''is_admin'' \<notin> set (map fname NewsArticle)"
    by (simp add: NewsArticle_def req_def opt_def)
  have 1: "fst (create_item example_lib example_env example_db ''newsarticle'' ?p)
      = Inr ''aaaaaaaaaaaaaaaaaaaaaaaa''"
    unfolding r by (simp add: example_env_def)
  have 2: "length (snd (create_item example_lib example_env example_db ''newsarticle'' ?p) ''newsarticle'') = 2"
    unfolding r by (simp add: example_db_def)
  have 3: "last (snd (create_item example_lib example_env example_db ''newsarticle'' ?p) ''newsarticle'') ''title''
      = Some (JStr ''T'')"
    unfolding r by (simp add: model_dump_def)
  have 4: "last (snd (create_item example_lib example_env example_db ''newsarticle'' ?p) ''newsarticle'') ''is_admin''
      = None"
    unfolding r by (simp add: model_dump_def)
  from s 0 1 2 3 4 show ?thesis by (intro conjI)
qed

theorem create_ignores_undeclared_fields_witness:
  "schema_map ''newsarticle'' = Some NewsArticle \<and>
   create_item example_lib example_env example_db ''newsarticle''
          [''title'' \<mapsto> JStr ''T'', ''content'' \<mapsto> JStr ''C'', ''is_admin'' \<mapsto> JBool True]
     = create_item example_lib example_env example_db ''newsarticle''
         ([''title'' \<mapsto> JStr ''T'', ''content'' \<mapsto> JStr ''C'', ''is_admin'' \<mapsto> JBool True]
            |` set (map fname NewsArticle)) \<and>
   (\<exists>doc. create_item example_lib example_env example_db ''newsarticle''
          [''title'' \<mapsto> JStr ''T'', ''content'' \<mapsto> JStr ''C'', ''is_admin'' \<mapsto> JBool True]
      = (Inr (object_id example_env 0),
         example_db(''newsarticle'' := example_db ''newsarticle'' @ [doc])) \<and>
      (\<forall>f\<in>set NewsArticle. doc (fname f) = validate_field example_lib f [''title'' \<mapsto> JStr ''T'', ''content'' \<mapsto> JStr ''C'', ''is_admin'' \<mapsto> JBool True]) \<and>
      doc ''created_at'' = Some (JTime (now example_env 0)) \<and>
      doc ''updated_at'' = Some (JTime (now example_env 1)) \<and>
      doc ''_id'' = Some (JOid (object_id example_env 0)) \<and>
      dom doc = fname ` set NewsArticle \<union> {''created_at'', ''updated_at'', ''_id''}) \<and>
   create_item example_lib example_env example_db ''newsarticle'' [''title'' \<mapsto> JInt 5]
     = (Inl (ValidationError (field_errors example_lib NewsArticle [''title'' \<mapsto> JInt 5])),
        example_db) \<and>
   field_errors example_lib NewsArticle [''title'' \<mapsto> JInt 5] = [''title'', ''content'']"
proof -
  let ?p = "[''title'' \<mapsto> JStr ''T'', ''content'' \<mapsto> JStr ''C'', ''is_admin'' \<mapsto> JBool True]"
  have s: "schema_map ''newsarticle'' = Some NewsArticle" by (simp add: schema_map_def)
  have ok: "\<forall>f\<in>set NewsArticle. validate_field example_lib f ?p \<noteq> None"
    by (simp add: validate_field_def NewsArticle_def req_def opt_def)
  have fresh: "\<forall>x\<in>set (example_db ''newsarticle''). x ''_id'' \<noteq> Some (JOid (object_id example_env 0))"
    by (simp add: example_db_def example_article_def example_env_def)
  have bad: "\<exists>f\<in>set NewsArticle. validate_field example_lib f [''title'' \<mapsto> JInt 5] = None"
    by (simp add: validate_field_def NewsArticle_def req_def opt_def)
  note t = create_ignores_undeclared_fields [of "''newsarticle''" NewsArticle example_lib example_env
      example_db ?p, THEN mp, OF s]
  note 1 = conjunct1 [OF t]
  note 2 = conjunct1 [OF conjunct2 [OF conjunct2 [OF conjunct2 [OF t]]], THEN mp, OF conjI [OF ok fresh]]
  note u = create_ignores_undeclared_fields [of "''newsarticle''" NewsArticle example_lib example_env
      example_db "[''title'' \<mapsto> JInt 5]", THEN mp, OF s]
  note 3 = conjunct1 [OF conjunct1 [OF conjunct2 [OF conjunct2 [OF u]], THEN mp, OF bad]]
  have 4: "field_errors example_lib NewsArticle [''title'' \<mapsto> JInt 5] = [''title'', ''content'']"
    by (simp add: field_errors_def validate_field_def NewsArticle_def req_def opt_def)
  from s 1 2 3 4 show ?thesis by (intro conjI)
qed

end
